theory Spec2Isabelle
  imports Main "HOL-Library.Sublist"
begin

section \<open>Thumblify: the thumbnail controller and the download link\<close>

text \<open>
  A shallow embedding of \<^verbatim>\<open>server/controllers/ThumbnailController.ts\<close>
  (\<^verbatim>\<open>generateThumbnail\<close>, \<^verbatim>\<open>deleteThumbnail\<close>) and of the download handlers of
  the client (\<^verbatim>\<open>handleDownload\<close> of \<^verbatim>\<open>MyGeneration.tsx\<close>, \<^verbatim>\<open>onDownload\<close> of the
  preview panel).  Every \<^verbatim>\<open>await\<close> of a handler is a call to a service outside the
  controller (the document store, the generation provider, the media host); what such a
  call answers is an input of the model, so that every \<^verbatim>\<open>throw\<close> and every rejected
  promise of the source is a branch of it.
\<close>

subsection \<open>JavaScript values\<close>

text \<open>
  The values the controller handles.  A field of \<^verbatim>\<open>req.body\<close> is absent
  (\<^verbatim>\<open>undefined\<close>), \<^verbatim>\<open>null\<close>, a boolean or a string; JSON numbers, arrays and
  objects, which the client never sends, are outside the model.  \<open>JFunction\<close> and
  \<open>JObject\<close> are what a property lookup on an object literal can find on
  \<^verbatim>\<open>Object.prototype\<close>: a built-in function (by name) and the prototype object.
\<close>

datatype jsval =
    JUndefined
  | JNull
  | JBool bool
  | JStr string
  | JFunction string
  | JObject

text \<open>Truthiness, as \<^verbatim>\<open>if (v)\<close> and \<^verbatim>\<open>!v\<close> test it.\<close>

fun truthy :: "jsval \<Rightarrow> bool" where
  "truthy JUndefined = False"
| "truthy JNull = False"
| "truthy (JBool b) = b"
| "truthy (JStr s) = (s \<noteq> [])"
| "truthy (JFunction n) = True"
| "truthy JObject = True"

text \<open>
  The text a template literal \<^verbatim>\<open>`${v}`\<close> interpolates, which is also the property key
  that \<^verbatim>\<open>obj[v]\<close> looks up.  A built-in function prints as V8 prints it.
\<close>

fun toString :: "jsval \<Rightarrow> string" where
  "toString JUndefined = ''undefined''"
| "toString JNull = ''null''"
| "toString (JBool b) = (if b then ''true'' else ''false'')"
| "toString (JStr s) = s"
| "toString (JFunction n) = ''function '' @ n @ ''() { [native code] }''"
| "toString JObject = ''[object Object]''"

text \<open>
  The properties every object literal inherits from \<^verbatim>\<open>Object.prototype\<close>;
  \<^verbatim>\<open>constructor\<close> is the function \<^verbatim>\<open>Object\<close>, \<^verbatim>\<open>__proto__\<close> answers the prototype
  itself, the others are built-in methods named as their keys.
\<close>

definition ObjectPrototype :: "(string \<times> jsval) list" where
  "ObjectPrototype =
    [(''constructor'', JFunction ''Object''),
     (''__defineGetter__'', JFunction ''__defineGetter__''),
     (''__defineSetter__'', JFunction ''__defineSetter__''),
     (''hasOwnProperty'', JFunction ''hasOwnProperty''),
     (''__lookupGetter__'', JFunction ''__lookupGetter__''),
     (''__lookupSetter__'', JFunction ''__lookupSetter__''),
     (''isPrototypeOf'', JFunction ''isPrototypeOf''),
     (''propertyIsEnumerable'', JFunction ''propertyIsEnumerable''),
     (''toString'', JFunction ''toString''),
     (''valueOf'', JFunction ''valueOf''),
     (''__proto__'', JObject),
     (''toLocaleString'', JFunction ''toLocaleString'')]"

text \<open>
  \<^verbatim>\<open>table[key]\<close> on an object literal whose own properties are the strings of
  \<open>table\<close>: the own property, else the inherited one, else \<^verbatim>\<open>undefined\<close>.  The cast
  \<^verbatim>\<open>as keyof typeof table\<close> of the source is erased at run time.
\<close>

definition getProperty :: "(string \<times> string) list \<Rightarrow> jsval \<Rightarrow> jsval" where
  "getProperty table key =
    (case map_of table (toString key) of
       Some text \<Rightarrow> JStr text
     | None \<Rightarrow>
        (case map_of ObjectPrototype (toString key) of
           Some v \<Rightarrow> v
         | None \<Rightarrow> JUndefined))"

subsection \<open>The style and colour tables\<close>

definition stylePrompts :: "(string \<times> string) list" where
  "stylePrompts =
    [(''Bold & Graphic'',
      ''eye-catching thumbnail, bold typography, vibrant colors, expressive facial reaction, dramatic lighting, high contrast, click-worthy composition, professional style''),
     (''Tech/Futuristic'',
      ''futuristic thumbnail, sleek modern design, digital UI elements, glowing accents, holographic effects, cyber-tech aesthetic, sharp lighting, high-tech atmosphere''),
     (''Minimalist'',
      ''minimalist thumbnail, clean layout, simple shapes, limited color palette, plenty of negative space, modern flat design, clear focal point''),
     (''Photorealistic'',
      ''photorealistic thumbnail, ultra-realistic lighting, natural skin tones, candid moment, DSLR-style photography, lifestyle realism, shallow depth of field''),
     (''Illustrated'',
      ''illustrated thumbnail, custom digital illustration, stylized characters, bold outlines, vibrant colors, creative cartoon or vector art style'')]"

definition colorSchemeDescriptions :: "(string \<times> string) list" where
  "colorSchemeDescriptions =
    [(''vibrant'',
      ''vibrant and energetic colors, high saturation, bold contrasts, eye-catching palette''),
     (''sunset'',
      ''warm sunset tones, orange pink and purple hues, soft gradients, cinematic glow''),
     (''forest'',
      ''natural green tones, earthy colors, calm and organic palette, fresh atmosphere''),
     (''neon'',
      ''neon glow effects, electric blues and pinks, cyberpunk lighting, high contrast glow''),
     (''purple'',
      ''purple-dominant color palette, magenta and violet tones, modern and stylish mood''),
     (''monochrome'',
      ''black and white color scheme, high contrast, dramatic lighting, timeless aesthetic''),
     (''ocean'',
      ''cool blue and teal tones, aquatic color palette, fresh and clean atmosphere''),
     (''pastel'',
      ''soft pastel colors, low saturation, gentle tones, calm and friendly aesthetic'')]"

subsection \<open>Prompt building\<close>

text \<open>
  Lines 105 to 122 of \<^verbatim>\<open>generateThumbnail\<close>: the variable \<^verbatim>\<open>prompt\<close> is assigned and
  then extended by \<^verbatim>\<open>+=\<close> three times, twice under a truthiness test.
\<close>

definition buildPrompt :: "jsval \<Rightarrow> jsval \<Rightarrow> jsval \<Rightarrow> jsval \<Rightarrow> jsval \<Rightarrow> string" where
  "buildPrompt title user_prompt style aspect_ratio color_scheme =
    (let prompt0 = ''Create a '' @ toString (getProperty stylePrompts style)
                     @ '' thumbnail for \"'' @ toString title @ ''\". '';
         prompt1 = (if truthy color_scheme
                    then prompt0 @ ''Use a ''
                           @ toString (getProperty colorSchemeDescriptions color_scheme)
                           @ '' color scheme. ''
                    else prompt0);
         prompt2 = (if truthy user_prompt
                    then prompt1 @ ''Additional details: '' @ toString user_prompt @ ''. ''
                    else prompt1)
     in prompt2 @ ''The thumbnail should be '' @ toString aspect_ratio
          @ '', visually stunning, bold, professional, and optimized for maximum click-through rate.'')"

subsection \<open>The thumbnail collection\<close>

text \<open>
  Modelled from the spec: the Mongoose model \<^verbatim>\<open>models/Thumbnail\<close> (the schema of a
  generation record) is not among the sources.  A record holds the fields the controller
  passes to \<^verbatim>\<open>Thumbnail.create\<close>, a boolean in-progress flag and an optional image
  reference, absent until the generation completes.  The collection maps a document
  identifier (\<^verbatim>\<open>_id\<close>) to its record; \<open>next_id\<close> stands for the identifier
  generator, which never issues an identifier twice.
\<close>

record thumbnail =
  userId :: jsval
  title :: jsval
  prompt_used :: jsval
  user_prompt :: jsval
  style :: jsval
  aspect_ratio :: jsval
  color_scheme :: jsval
  text_overlay :: jsval
  isGenerating :: bool
  image_url :: "string option"

record store =
  docs :: "nat \<rightharpoonup> thumbnail"
  next_id :: nat

text \<open>
  The three store calls of the controller.  Each is awaited inside the handler's
  \<^verbatim>\<open>try\<close>; \<open>fault = Some msg\<close> is the call rejecting with an error of message
  \<open>msg\<close> (a validation or cast error, a lost connection), after which the collection is
  as before.
\<close>

definition Thumbnail_create ::
    "string option \<Rightarrow> store \<Rightarrow> thumbnail \<Rightarrow> string + (store \<times> nat)" where
  "Thumbnail_create fault db doc =
    (case fault of
       Some msg \<Rightarrow> Inl msg
     | None \<Rightarrow>
        Inr (db\<lparr>docs := (docs db)(next_id db \<mapsto> doc), next_id := Suc (next_id db)\<rparr>,
             next_id db))"

definition Thumbnail_save ::
    "string option \<Rightarrow> store \<Rightarrow> nat \<Rightarrow> thumbnail \<Rightarrow> string + store" where
  "Thumbnail_save fault db i doc =
    (case fault of
       Some msg \<Rightarrow> Inl msg
     | None \<Rightarrow> Inr (db\<lparr>docs := (docs db)(i \<mapsto> doc)\<rparr>))"

text \<open>
  \<^verbatim>\<open>findOneAndDelete({ _id: id, userId })\<close>: removes the document with this identifier
  when its owner field equals \<open>uid\<close>, and answers which document it removed, if any.
\<close>

definition Thumbnail_findOneAndDelete ::
    "string option \<Rightarrow> store \<Rightarrow> nat \<Rightarrow> jsval \<Rightarrow> string + (store \<times> thumbnail option)" where
  "Thumbnail_findOneAndDelete fault db i uid =
    (case fault of
       Some msg \<Rightarrow> Inl msg
     | None \<Rightarrow>
        (case docs db i of
           None \<Rightarrow> Inr (db, None)
         | Some doc \<Rightarrow>
            if userId doc = uid then Inr (db\<lparr>docs := (docs db)(i := None)\<rparr>, Some doc)
            else Inr (db, None)))"

subsection \<open>The generation provider and the media host\<close>

text \<open>
  The response of \<^verbatim>\<open>ai.models.generateContent\<close>, as far as the handler reads it:
  \<^verbatim>\<open>response?.candidates?.[0]?.content?.parts\<close> and, of each part,
  \<^verbatim>\<open>part.inlineData?.data\<close> (base64 text).
\<close>

datatype blob = Blob (data: "string option")

datatype part = Part (inlineData: "blob option")

datatype content = Content (parts: "part list option")

datatype candidate = Candidate (content: "content option")

datatype gen_response = GenerateContentResponse (candidates: "candidate list option")

datatype provider_result =
    NeverReturns
  | ProviderThrows string
  | ProviderReturns "gen_response option"

datatype upload_result =
    UploadError string
  | UploadResult string

text \<open>What the services answer during one invocation of \<^verbatim>\<open>generateThumbnail\<close>.\<close>

record services =
  create_fault :: "string option"
  provider :: provider_result
  upload :: upload_result
  save_fault :: "string option"

subsection \<open>Buffer.from(data, "base64")\<close>

text \<open>
  Node's decoder: a character outside the base64 alphabets (standard and URL-safe) is
  skipped, \<^verbatim>\<open>=\<close> ends the text, four sextets give three bytes and a final group of
  three or two sextets gives two bytes or one.  Bytes are numbers below 256.
\<close>

fun index_of :: "'a \<Rightarrow> 'a list \<Rightarrow> nat option" where
  "index_of x [] = None"
| "index_of x (y # ys) = (if x = y then Some 0 else map_option Suc (index_of x ys))"

definition unbase64 :: "char \<Rightarrow> nat option" where
  "unbase64 c =
    (if c = CHR ''-'' then Some 62
     else if c = CHR ''_'' then Some 63
     else index_of c ''ABCDEFGHIJKLMNOPQRSTUVWXYZabcdefghijklmnopqrstuvwxyz0123456789+/'')"

fun sextets :: "string \<Rightarrow> nat list" where
  "sextets [] = []"
| "sextets (c # cs) =
    (if c = CHR ''='' then []
     else (case unbase64 c of None \<Rightarrow> sextets cs | Some v \<Rightarrow> v # sextets cs))"

fun octets :: "nat list \<Rightarrow> nat list" where
  "octets (a # b # c # d # rest) =
     (a * 4 + b div 16) # ((b mod 16) * 16 + c div 4) # ((c mod 4) * 64 + d) # octets rest"
| "octets [a, b, c] = [a * 4 + b div 16, (b mod 16) * 16 + c div 4]"
| "octets [a, b] = [a * 4 + b div 16]"
| "octets _ = []"

definition Buffer_from_base64 :: "string \<Rightarrow> nat list" where
  "Buffer_from_base64 text = octets (sextets text)"

subsection \<open>Requests, responses and effects\<close>

record generate_request =
  session_userId :: jsval
  body_title :: jsval
  body_prompt :: jsval
  body_style :: jsval
  body_aspect_ratio :: jsval
  body_color_scheme :: jsval
  body_text_overlay :: jsval

record delete_request =
  params_id :: nat
  caller_userId :: jsval

text \<open>
  The JSON bodies the handlers send: \<^verbatim>\<open>{ message }\<close>,
  \<^verbatim>\<open>{ success: false, message }\<close> and \<^verbatim>\<open>{ success: true, thumbnail }\<close>.
\<close>

datatype body =
    Message string
  | Failure string
  | Success nat thumbnail

datatype response = Response (status: nat) (body: body)

text \<open>
  The effects of a handler on the services, in the order it performs them: a document
  created, the provider called with a prompt and an aspect ratio, bytes handed to the
  media host, a document saved, a document removed.
\<close>

datatype event =
    Created nat thumbnail
  | ProviderCalled string jsval
  | UploadCalled "nat list"
  | Saved nat thumbnail
  | Deleted nat

text \<open>
  What one invocation leaves behind: the collection, its effects, and the response it
  sent (\<open>None\<close> when it is still waiting for a call that never returns).
\<close>

record outcome =
  final :: store
  trace :: "event list"
  reply :: "response option"

subsection \<open>generateThumbnail\<close>

text \<open>\<^verbatim>\<open>response?.candidates?.[0]?.content?.parts\<close>; an empty array of parts is truthy.\<close>

definition responseParts :: "gen_response option \<Rightarrow> part list option" where
  "responseParts response =
    (case response of
       None \<Rightarrow> None
     | Some r \<Rightarrow>
        (case candidates r of
           None \<Rightarrow> None
         | Some cs \<Rightarrow>
            (case cs of
               [] \<Rightarrow> None
             | c # _ \<Rightarrow> (case content c of None \<Rightarrow> None | Some ct \<Rightarrow> parts ct))))"

text \<open>\<^verbatim>\<open>part.inlineData?.data\<close>, when it is truthy (a non-empty string).\<close>

definition inlineImage :: "part \<Rightarrow> string option" where
  "inlineImage p =
    (case inlineData p of
       None \<Rightarrow> None
     | Some b \<Rightarrow> (case data b of None \<Rightarrow> None | Some d \<Rightarrow> if d = [] then None else Some d))"

text \<open>
  The loop \<^verbatim>\<open>for (const part of parts)\<close>, with the variable \<^verbatim>\<open>imageBuffer\<close> as
  accumulator; its body assigns and goes on to the next part.
\<close>

fun scanParts :: "nat list option \<Rightarrow> part list \<Rightarrow> nat list option" where
  "scanParts imageBuffer [] = imageBuffer"
| "scanParts imageBuffer (p # rest) =
    scanParts (case inlineImage p of
                 None \<Rightarrow> imageBuffer
               | Some d \<Rightarrow> Some (Buffer_from_base64 d)) rest"

text \<open>Lines 131 to 146: the image bytes, or the message of the error thrown.\<close>

definition extractImage :: "gen_response option \<Rightarrow> string + nat list" where
  "extractImage response =
    (case responseParts response of
       None \<Rightarrow> Inl ''Invalid AI response''
     | Some ps \<Rightarrow>
        (case scanParts None ps of
           None \<Rightarrow> Inl ''No image returned from AI''
         | Some imageBuffer \<Rightarrow> Inr imageBuffer))"

text \<open>The \<^verbatim>\<open>catch\<close> of \<^verbatim>\<open>generateThumbnail\<close>, for an error of message \<open>msg\<close>.\<close>

definition generateFailed :: "string \<Rightarrow> response" where
  "generateFailed msg =
    Response 500 (Failure (if msg \<noteq> [] then msg else ''Failed to generate thumbnail''))"

text \<open>
  The destructuring default \<^verbatim>\<open>aspect_ratio = "16:9"\<close> applies to an absent field only.
\<close>

definition defaultTo :: "jsval \<Rightarrow> jsval \<Rightarrow> jsval" where
  "defaultTo d v = (case v of JUndefined \<Rightarrow> d | _ \<Rightarrow> v)"

text \<open>
  The object passed to \<^verbatim>\<open>Thumbnail.create\<close> (lines 63 to 73): the in-progress flag is
  set and no image reference is given.
\<close>

definition newThumbnail :: "jsval \<Rightarrow> generate_request \<Rightarrow> jsval \<Rightarrow> thumbnail" where
  "newThumbnail uid req ratio =
    \<lparr>userId = uid,
     title = body_title req,
     prompt_used = body_prompt req,
     user_prompt = body_prompt req,
     style = body_style req,
     aspect_ratio = ratio,
     color_scheme = body_color_scheme req,
     text_overlay = body_text_overlay req,
     isGenerating = True,
     image_url = None\<rparr>"

definition generateThumbnail :: "services \<Rightarrow> store \<Rightarrow> generate_request \<Rightarrow> outcome" where
  "generateThumbnail env db req =
    (let uid = session_userId req in
     if \<not> truthy uid then
       \<lparr>final = db, trace = [], reply = Some (Response 401 (Message ''Unauthorized''))\<rparr>
     else
       (let ratio = defaultTo (JStr ''16:9'') (body_aspect_ratio req);
            doc = newThumbnail uid req ratio
        in
        (case Thumbnail_create (create_fault env) db doc of
           Inl msg \<Rightarrow> \<lparr>final = db, trace = [], reply = Some (generateFailed msg)\<rparr>
         | Inr (db1, i) \<Rightarrow>
            (let prompt = buildPrompt (body_title req) (body_prompt req) (body_style req)
                            ratio (body_color_scheme req);
                 t1 = [Created i doc, ProviderCalled prompt ratio]
             in
             (case provider env of
                NeverReturns \<Rightarrow> \<lparr>final = db1, trace = t1, reply = None\<rparr>
              | ProviderThrows msg \<Rightarrow>
                 \<lparr>final = db1, trace = t1, reply = Some (generateFailed msg)\<rparr>
              | ProviderReturns response \<Rightarrow>
                 (case extractImage response of
                    Inl msg \<Rightarrow>
                     \<lparr>final = db1, trace = t1, reply = Some (generateFailed msg)\<rparr>
                  | Inr imageBuffer \<Rightarrow>
                     (let t2 = t1 @ [UploadCalled imageBuffer] in
                      (case upload env of
                         UploadError msg \<Rightarrow>
                          \<lparr>final = db1, trace = t2, reply = Some (generateFailed msg)\<rparr>
                       | UploadResult secure_url \<Rightarrow>
                          (let doc' = doc\<lparr>image_url := Some secure_url,
                                            isGenerating := False\<rparr>
                           in
                           (case Thumbnail_save (save_fault env) db1 i doc' of
                              Inl msg \<Rightarrow>
                               \<lparr>final = db1, trace = t2,
                                reply = Some (generateFailed msg)\<rparr>
                            | Inr db2 \<Rightarrow>
                               \<lparr>final = db2, trace = t2 @ [Saved i doc'],
                                reply = Some (Response 200 (Success i doc'))\<rparr>))))))))))"

subsection \<open>deleteThumbnail\<close>

definition deleteThumbnail :: "string option \<Rightarrow> store \<Rightarrow> delete_request \<Rightarrow> outcome" where
  "deleteThumbnail fault db req =
    (let i = params_id req; uid = caller_userId req in
     if \<not> truthy uid then
       \<lparr>final = db, trace = [], reply = Some (Response 401 (Message ''Unauthorized''))\<rparr>
     else
       (case Thumbnail_findOneAndDelete fault db i uid of
          Inl msg \<Rightarrow> \<lparr>final = db, trace = [], reply = Some (Response 500 (Message msg))\<rparr>
        | Inr (db1, removed) \<Rightarrow>
           \<lparr>final = db1,
            trace = (case removed of None \<Rightarrow> [] | Some _ \<Rightarrow> [Deleted i]),
            reply = Some (Response 200 (Message ''Thumbnail deleted successfully''))\<rparr>))"

subsection \<open>The download link of the client\<close>

text \<open>
  \<^verbatim>\<open>str.replace(pattern, replacement)\<close> with a string pattern: the first occurrence of
  the pattern is replaced, the rest of the string is kept.  (A replacement without
  \<^verbatim>\<open>$\<close> is inserted as it is; the one used here has none.)
\<close>

fun replace :: "string \<Rightarrow> string \<Rightarrow> string \<Rightarrow> string" where
  "replace [] pat rep = (if pat = [] then rep else [])"
| "replace (c # cs) pat rep =
    (if prefix pat (c # cs) then rep @ drop (length pat) (c # cs)
     else c # replace cs pat rep)"

text \<open>The anchor element the handlers build and click.\<close>

record link =
  href :: string
  download :: string
  target :: string

text \<open>\<^verbatim>\<open>handleDownload(image_url, id)\<close> of \<^verbatim>\<open>MyGeneration.tsx\<close>; \<open>None\<close> is the early return.\<close>

definition handleDownload :: "string \<Rightarrow> string \<Rightarrow> link option" where
  "handleDownload url thumb_id =
    (if url = [] then None
     else
       let downloadUrl = replace url ''/upload/'' ''/upload/fl_attachment/'' in
       Some \<lparr>href = downloadUrl, download = ''thumbnail-'' @ thumb_id @ ''.png'',
             target = ''_self''\<rparr>)"

text \<open>
  \<^verbatim>\<open>onDownload\<close> of the preview panel, on the panel's \<^verbatim>\<open>thumbnail\<close> property: \<open>None\<close>
  when it is \<^verbatim>\<open>null\<close>, else its optional \<^verbatim>\<open>image_url\<close> and \<^verbatim>\<open>_id\<close>.
\<close>

definition onDownload :: "(string option \<times> string option) option \<Rightarrow> link option" where
  "onDownload thumb =
    (case thumb of
       None \<Rightarrow> None
     | Some (url_opt, id_opt) \<Rightarrow>
        (case url_opt of
           None \<Rightarrow> None
         | Some url \<Rightarrow>
            if url = [] then None
            else
              let downloadUrl = replace url ''/upload/'' ''/upload/fl_attachment/'';
                  name = (case id_opt of
                            None \<Rightarrow> ''download''
                          | Some i \<Rightarrow> if i = [] then ''download'' else i)
              in Some \<lparr>href = downloadUrl, download = ''thumbnail-'' @ name @ ''.png'',
                       target = ''_self''\<rparr>))"

text \<open>How often a pattern occurs in a string, overlapping occurrences included.\<close>

fun occurrences :: "string \<Rightarrow> string \<Rightarrow> nat" where
  "occurrences pat [] = (if pat = [] then 1 else 0)"
| "occurrences pat (c # cs) = (if prefix pat (c # cs) then 1 else 0) + occurrences pat cs"

subsection \<open>Sequences of invocations\<close>

text \<open>
  A handler runs from its first statement to its response before the next one starts
  (the specification's reading: one record is created and completed by a single linear
  handler invocation); a sequence of invocations threads the collection through them and
  concatenates their effects.
\<close>

datatype invocation =
    GenerateCall services generate_request
  | DeleteCall "string option" delete_request

fun invoke :: "invocation \<Rightarrow> store \<Rightarrow> outcome" where
  "invoke (GenerateCall env req) db = generateThumbnail env db req"
| "invoke (DeleteCall fault req) db = deleteThumbnail fault db req"

fun run :: "store \<Rightarrow> invocation list \<Rightarrow> store \<times> event list" where
  "run db [] = (db, [])"
| "run db (c # cs) =
    (let out = invoke c db; (db', evs) = run (final out) cs in (db', trace out @ evs))"

text \<open>What an effect does to the documents, and the documents after a list of effects.\<close>

fun effect :: "event \<Rightarrow> (nat \<rightharpoonup> thumbnail) \<Rightarrow> (nat \<rightharpoonup> thumbnail)" where
  "effect (Created i d) m = m(i \<mapsto> d)"
| "effect (Saved i d) m = m(i \<mapsto> d)"
| "effect (Deleted i) m = m(i := None)"
| "effect (ProviderCalled p r) m = m"
| "effect (UploadCalled b) m = m"

definition replay :: "event list \<Rightarrow> (nat \<rightharpoonup> thumbnail) \<Rightarrow> (nat \<rightharpoonup> thumbnail)" where
  "replay evs m = fold effect evs m"

text \<open>An effect that writes an image reference into document \<open>i\<close>.\<close>

fun writesImage :: "nat \<Rightarrow> event \<Rightarrow> bool" where
  "writesImage i (Created j d) = (i = j \<and> image_url d \<noteq> None)"
| "writesImage i (Saved j d) = (i = j \<and> image_url d \<noteq> None)"
| "writesImage i (Deleted j) = False"
| "writesImage i (ProviderCalled p r) = False"
| "writesImage i (UploadCalled b) = False"

text \<open>The inline image payloads of a list of parts, in the order of the parts.\<close>

definition inlinePayloads :: "part list \<Rightarrow> string list" where
  "inlinePayloads ps = List.map_filter inlineImage ps"

subsection \<open>Example inputs\<close>

text \<open>
  The scenario of the specification: a request for \<open>10 sleep tips\<close>, minimalist, square,
  pastel, by a logged-in user, against an empty collection.
\<close>

definition empty_store :: store where
  "empty_store = \<lparr>docs = Map.empty, next_id = 0\<rparr>"

definition sleep_tips :: generate_request where
  "sleep_tips =
    \<lparr>session_userId = JStr ''user-1'',
     body_title = JStr ''10 sleep tips'',
     body_prompt = JStr [],
     body_style = JStr ''Minimalist'',
     body_aspect_ratio = JStr ''1:1'',
     body_color_scheme = JStr ''pastel'',
     body_text_overlay = JBool True\<rparr>"

definition image_part :: "string \<Rightarrow> part" where
  "image_part d = Part (Some (Blob (Some d)))"

definition text_part :: part where
  "text_part = Part None"

definition response_with :: "part list \<Rightarrow> gen_response option" where
  "response_with ps = Some (GenerateContentResponse (Some [Candidate (Some (Content (Some ps)))]))"

text \<open>Services that all answer: one image of one byte, and a media URL.\<close>

definition all_well :: services where
  "all_well =
    \<lparr>create_fault = None,
     provider = ProviderReturns (response_with [image_part ''QQ=='']),
     upload = UploadResult ''https://res.cloudinary.com/demo/image/upload/v1/thumbnails/a.png'',
     save_fault = None\<rparr>"

subsection \<open>Vocabulary for the paths of generateThumbnail\<close>

text \<open>
  Names for what the handler computes from a request: the record it creates, the prompt
  it sends, the collection after the insertion, the record after completion and the
  first two effects of an invocation that reaches the provider.
\<close>

definition requested :: "generate_request \<Rightarrow> thumbnail" where
  "requested req =
    newThumbnail (session_userId req) req (defaultTo (JStr ''16:9'') (body_aspect_ratio req))"

definition requestedPrompt :: "generate_request \<Rightarrow> string" where
  "requestedPrompt req =
    buildPrompt (body_title req) (body_prompt req) (body_style req)
      (defaultTo (JStr ''16:9'') (body_aspect_ratio req)) (body_color_scheme req)"

definition inserted :: "store \<Rightarrow> thumbnail \<Rightarrow> store" where
  "inserted db doc = db\<lparr>docs := (docs db)(next_id db \<mapsto> doc), next_id := Suc (next_id db)\<rparr>"

definition completed :: "thumbnail \<Rightarrow> string \<Rightarrow> thumbnail" where
  "completed doc url = doc\<lparr>image_url := Some url, isGenerating := False\<rparr>"

definition started :: "store \<Rightarrow> generate_request \<Rightarrow> event list" where
  "started db req =
    [Created (next_id db) (requested req),
     ProviderCalled (requestedPrompt req) (defaultTo (JStr ''16:9'') (body_aspect_ratio req))]"

text \<open>A collection holding one record of \<open>user-1\<close> and one of \<open>user-2\<close>.\<close>

definition two_owners :: store where
  "two_owners =
    \<lparr>docs = [0 \<mapsto> requested sleep_tips,
              1 \<mapsto> requested (sleep_tips\<lparr>session_userId := JStr ''user-2''\<rparr>)],
     next_id = 2\<rparr>"

text \<open>Services whose provider returns two images, of the bytes 65 and 66.\<close>

definition two_images :: services where
  "two_images =
    all_well\<lparr>provider := ProviderReturns (response_with [image_part ''QQ=='', image_part ''Qg==''])\<rparr>"

text \<open>
  The example request with the style tag the client form starts with (the table's key is
  \<open>Bold & Graphic\<close>) and a colour tag the table does not list; and with a style tag
  that names a method every object inherits.
\<close>

definition unlisted_tags :: generate_request where
  "unlisted_tags = sleep_tips\<lparr>body_style := JStr ''Bold and Graphic'', body_color_scheme := JStr ''teal''\<rparr>"

definition inherited_tag :: generate_request where
  "inherited_tag = sleep_tips\<lparr>body_style := JStr ''toString''\<rparr>"

text \<open>The example request with a colour tag that names an inherited property.\<close>

definition inherited_colour :: generate_request where
  "inherited_colour = sleep_tips\<lparr>body_color_scheme := JStr ''constructor''\<rparr>"

text \<open>
  A media URL as the media host issues it, and a URL whose path repeats the segment
  \<open>/upload/\<close>.
\<close>

definition media_url :: string where
  "media_url = ''https://res.cloudinary.com/demo/image/upload/v1/thumbnails/a.png''"

definition double_upload_url :: string where
  "double_upload_url = ''https://media.example/upload/upload/a.png''"

subsection \<open>Vocabulary for sequences of invocations\<close>

text \<open>
  The identifier generator is ahead of every identifier in the collection.  A step of a
  trace is in order for document \<open>i\<close> when, if it writes an image reference into
  \<open>i\<close>, the document was in progress without an image before and is completed after,
  and when it does not set the flag of a completed document again.
\<close>

definition fresh_ids :: "store \<Rightarrow> bool" where
  "fresh_ids db = (\<forall>j. docs db j \<noteq> None \<longrightarrow> j < next_id db)"

definition step_ok :: "nat \<Rightarrow> (nat \<rightharpoonup> thumbnail) \<Rightarrow> event \<Rightarrow> bool" where
  "step_ok i m e =
    ((writesImage i e \<longrightarrow>
        (case (m i, effect e m i) of
           (Some before, Some after) \<Rightarrow>
             isGenerating before \<and> image_url before = None \<and>
             \<not> isGenerating after \<and> image_url after \<noteq> None
         | _ \<Rightarrow> False))
     \<and> (case (m i, effect e m i) of
           (Some before, Some after) \<Rightarrow> \<not> isGenerating before \<longrightarrow> \<not> isGenerating after
         | _ \<Rightarrow> True))"

fun steps_ok :: "nat \<Rightarrow> (nat \<rightharpoonup> thumbnail) \<Rightarrow> event list \<Rightarrow> bool" where
  "steps_ok i m [] = True"
| "steps_ok i m (e # es) = (step_ok i m e \<and> steps_ok i (effect e m) es)"

text \<open>What an invocation started in \<open>db\<close> guarantees about document \<open>i\<close>.\<close>

definition invocation_ok :: "nat \<Rightarrow> store \<Rightarrow> outcome \<Rightarrow> bool" where
  "invocation_ok i db out =
    (steps_ok i (docs db) (trace out) \<and>
     docs (final out) = replay (trace out) (docs db) \<and>
     fresh_ids (final out) \<and>
     next_id db \<le> next_id (final out) \<and>
     length (filter (writesImage i) (trace out)) \<le> 1 \<and>
     (filter (writesImage i) (trace out) \<noteq> [] \<longrightarrow> i = next_id db \<and> i < next_id (final out)))"

text \<open>The example request served to its end, then its record deleted by its owner.\<close>

definition generate_then_delete :: "invocation list" where
  "generate_then_delete =
    [GenerateCall all_well sleep_tips,
     DeleteCall None \<lparr>params_id = 0, caller_userId = JStr ''user-1''\<rparr>]"

section \<open>Properties\<close>

subsection \<open>The outcome of generateThumbnail, path by path\<close>

lemma buildPrompt_clauses:
  "buildPrompt t up st ar cs =
     (''Create a '' @ toString (getProperty stylePrompts st)
        @ '' thumbnail for \"'' @ toString t @ ''\". '')
   @ (if truthy cs
      then ''Use a '' @ toString (getProperty colorSchemeDescriptions cs) @ '' color scheme. ''
      else [])
   @ (if truthy up then ''Additional details: '' @ toString up @ ''. '' else [])
   @ (''The thumbnail should be '' @ toString ar
        @ '', visually stunning, bold, professional, and optimized for maximum click-through rate.'')"
  by (simp add: buildPrompt_def Let_def)

lemma provider_call_args:
  assumes "ProviderCalled p r \<in> set (trace (generateThumbnail env db req))"
  shows "r = defaultTo (JStr ''16:9'') (body_aspect_ratio req) \<and>
         p = buildPrompt (body_title req) (body_prompt req) (body_style req) r
               (body_color_scheme req)"
  using assms
  by (auto simp: generateThumbnail_def Let_def Thumbnail_create_def Thumbnail_save_def
           split: if_splits option.splits sum.splits provider_result.splits
                  upload_result.splits prod.splits)

lemmas generate_defs =
  generateThumbnail_def Let_def Thumbnail_create_def Thumbnail_save_def requested_def
  requestedPrompt_def inserted_def completed_def started_def

lemma generate_unauthorized:
  "\<not> truthy (session_userId req) \<Longrightarrow>
   generateThumbnail env db req =
     \<lparr>final = db, trace = [], reply = Some (Response 401 (Message ''Unauthorized''))\<rparr>"
  by (simp add: generate_defs)

lemma generate_create_rejected:
  "truthy (session_userId req) \<Longrightarrow> create_fault env = Some msg \<Longrightarrow>
   generateThumbnail env db req =
     \<lparr>final = db, trace = [], reply = Some (generateFailed msg)\<rparr>"
  by (simp add: generate_defs)

lemma generate_pending:
  "truthy (session_userId req) \<Longrightarrow> create_fault env = None \<Longrightarrow>
   provider env = NeverReturns \<Longrightarrow>
   generateThumbnail env db req =
     \<lparr>final = inserted db (requested req), trace = started db req, reply = None\<rparr>"
  by (simp add: generate_defs)

lemma generate_provider_throws:
  "truthy (session_userId req) \<Longrightarrow> create_fault env = None \<Longrightarrow>
   provider env = ProviderThrows msg \<Longrightarrow>
   generateThumbnail env db req =
     \<lparr>final = inserted db (requested req), trace = started db req,
      reply = Some (generateFailed msg)\<rparr>"
  by (simp add: generate_defs)

lemma generate_no_image:
  "truthy (session_userId req) \<Longrightarrow> create_fault env = None \<Longrightarrow>
   provider env = ProviderReturns response \<Longrightarrow> extractImage response = Inl msg \<Longrightarrow>
   generateThumbnail env db req =
     \<lparr>final = inserted db (requested req), trace = started db req,
      reply = Some (generateFailed msg)\<rparr>"
  by (simp add: generate_defs)

lemma generate_upload_error:
  "truthy (session_userId req) \<Longrightarrow> create_fault env = None \<Longrightarrow>
   provider env = ProviderReturns response \<Longrightarrow> extractImage response = Inr buf \<Longrightarrow>
   upload env = UploadError msg \<Longrightarrow>
   generateThumbnail env db req =
     \<lparr>final = inserted db (requested req), trace = started db req @ [UploadCalled buf],
      reply = Some (generateFailed msg)\<rparr>"
  by (simp add: generate_defs)

lemma generate_save_rejected:
  "truthy (session_userId req) \<Longrightarrow> create_fault env = None \<Longrightarrow>
   provider env = ProviderReturns response \<Longrightarrow> extractImage response = Inr buf \<Longrightarrow>
   upload env = UploadResult url \<Longrightarrow> save_fault env = Some msg \<Longrightarrow>
   generateThumbnail env db req =
     \<lparr>final = inserted db (requested req), trace = started db req @ [UploadCalled buf],
      reply = Some (generateFailed msg)\<rparr>"
  by (simp add: generate_defs)

lemma generate_success:
  "truthy (session_userId req) \<Longrightarrow> create_fault env = None \<Longrightarrow>
   provider env = ProviderReturns response \<Longrightarrow> extractImage response = Inr buf \<Longrightarrow>
   upload env = UploadResult url \<Longrightarrow> save_fault env = None \<Longrightarrow>
   generateThumbnail env db req =
     \<lparr>final = (inserted db (requested req))
                \<lparr>docs := (docs (inserted db (requested req)))
                           (next_id db \<mapsto> completed (requested req) url)\<rparr>,
      trace = started db req @ [UploadCalled buf, Saved (next_id db) (completed (requested req) url)],
      reply = Some (Response 200 (Success (next_id db) (completed (requested req) url)))\<rparr>"
  by (simp add: generate_defs)

text \<open>Every invocation follows one of these paths.\<close>

lemma generate_paths:
  obtains
    (unauthorized) "\<not> truthy (session_userId req)"
  | (create_rejected) msg where "truthy (session_userId req)" "create_fault env = Some msg"
  | (pending) "truthy (session_userId req)" "create_fault env = None" "provider env = NeverReturns"
  | (provider_throws) msg where "truthy (session_userId req)" "create_fault env = None"
      "provider env = ProviderThrows msg"
  | (no_image) response msg where "truthy (session_userId req)" "create_fault env = None"
      "provider env = ProviderReturns response" "extractImage response = Inl msg"
  | (upload_error) response buf msg where "truthy (session_userId req)" "create_fault env = None"
      "provider env = ProviderReturns response" "extractImage response = Inr buf"
      "upload env = UploadError msg"
  | (save_rejected) response buf url msg where "truthy (session_userId req)"
      "create_fault env = None" "provider env = ProviderReturns response"
      "extractImage response = Inr buf" "upload env = UploadResult url"
      "save_fault env = Some msg"
  | (success) response buf url where "truthy (session_userId req)" "create_fault env = None"
      "provider env = ProviderReturns response" "extractImage response = Inr buf"
      "upload env = UploadResult url" "save_fault env = None"
proof (cases "truthy (session_userId req)")
  case False then show ?thesis using unauthorized by simp
next
  case auth: True
  show ?thesis
  proof (cases "create_fault env")
    case (Some msg) with auth show ?thesis using create_rejected by simp
  next
    case cr: None
    show ?thesis
    proof (cases "provider env")
      case NeverReturns with auth cr show ?thesis using pending by simp
    next
      case (ProviderThrows msg) with auth cr show ?thesis using provider_throws by simp
    next
      case pr: (ProviderReturns response)
      show ?thesis
      proof (cases "extractImage response")
        case (Inl msg) with auth cr pr show ?thesis using no_image by simp
      next
        case ex: (Inr buf)
        show ?thesis
        proof (cases "upload env")
          case (UploadError msg) with auth cr pr ex show ?thesis using upload_error by simp
        next
          case up: (UploadResult url)
          show ?thesis
          proof (cases "save_fault env")
            case None with auth cr pr ex up show ?thesis using success by simp
          next
            case (Some msg) with auth cr pr ex up show ?thesis using save_rejected by simp
          qed
        qed
      qed
    qed
  qed
qed

subsection \<open>The example, evaluated\<close>

lemma all_well_image: "extractImage (response_with [image_part ''QQ=='']) = Inr [65]"
  by (simp add: extractImage_def responseParts_def response_with_def image_part_def
        inlineImage_def Buffer_from_base64_def unbase64_def)

lemma sleep_tips_well:
  "generateThumbnail all_well empty_store sleep_tips =
     \<lparr>final = (inserted empty_store (requested sleep_tips))
                \<lparr>docs := (docs (inserted empty_store (requested sleep_tips)))
                           (0 \<mapsto> completed (requested sleep_tips)
                             ''https://res.cloudinary.com/demo/image/upload/v1/thumbnails/a.png'')\<rparr>,
      trace = started empty_store sleep_tips @
        [UploadCalled [65],
         Saved 0 (completed (requested sleep_tips)
           ''https://res.cloudinary.com/demo/image/upload/v1/thumbnails/a.png'')],
      reply = Some (Response 200 (Success 0 (completed (requested sleep_tips)
           ''https://res.cloudinary.com/demo/image/upload/v1/thumbnails/a.png'')))\<rparr>"
  using generate_success [of sleep_tips all_well "response_with [image_part ''QQ=='']" "[65]"
      "''https://res.cloudinary.com/demo/image/upload/v1/thumbnails/a.png''" empty_store]
  by (simp add: all_well_image all_well_def sleep_tips_def empty_store_def)

subsection \<open>The prompt\<close>

text \<open>
  C7.  For every generate request, the prompt sent to the provider is the concatenation,
  in this order, of the clause built from the style table's entry, then, exactly when the
  colour scheme is supplied (truthy: present and not empty), the clause built from the
  colour table's entry, then, exactly when the user prompt is supplied, the details clause
  holding it, then the closing clause with the aspect ratio interpolated.  An authenticated
  request whose record was created does reach the provider.
\<close>

theorem prompt_is_ordered_concatenation:
  "(\<forall>p r. ProviderCalled p r \<in> set (trace (generateThumbnail env db req)) \<longrightarrow>
      p = (''Create a '' @ toString (getProperty stylePrompts (body_style req))
             @ '' thumbnail for \"'' @ toString (body_title req) @ ''\". '')
        @ (if truthy (body_color_scheme req)
           then ''Use a ''
                  @ toString (getProperty colorSchemeDescriptions (body_color_scheme req))
                  @ '' color scheme. ''
           else [])
        @ (if truthy (body_prompt req)
           then ''Additional details: '' @ toString (body_prompt req) @ ''. ''
           else [])
        @ (''The thumbnail should be ''
             @ toString (defaultTo (JStr ''16:9'') (body_aspect_ratio req))
             @ '', visually stunning, bold, professional, and optimized for maximum click-through rate.''))
   \<and> (truthy (session_userId req) \<and> create_fault env = None \<longrightarrow>
        (\<exists>p r. ProviderCalled p r \<in> set (trace (generateThumbnail env db req))))"
proof (intro conjI allI impI)
  fix p r
  assume "ProviderCalled p r \<in> set (trace (generateThumbnail env db req))"
  then have "p = buildPrompt (body_title req) (body_prompt req) (body_style req)
                   (defaultTo (JStr ''16:9'') (body_aspect_ratio req)) (body_color_scheme req)"
    using provider_call_args by blast
  then show "p = (''Create a '' @ toString (getProperty stylePrompts (body_style req))
             @ '' thumbnail for \"'' @ toString (body_title req) @ ''\". '')
        @ (if truthy (body_color_scheme req)
           then ''Use a ''
                  @ toString (getProperty colorSchemeDescriptions (body_color_scheme req))
                  @ '' color scheme. ''
           else [])
        @ (if truthy (body_prompt req)
           then ''Additional details: '' @ toString (body_prompt req) @ ''. ''
           else [])
        @ (''The thumbnail should be ''
             @ toString (defaultTo (JStr ''16:9'') (body_aspect_ratio req))
             @ '', visually stunning, bold, professional, and optimized for maximum click-through rate.'')"
    by (simp only: buildPrompt_clauses)
next
  assume a: "truthy (session_userId req) \<and> create_fault env = None"
  show "\<exists>p r. ProviderCalled p r \<in> set (trace (generateThumbnail env db req))"
  proof (cases rule: generate_paths [where req = req and env = env])
    case unauthorized with a show ?thesis by simp
  next
    case (create_rejected msg) with a show ?thesis by simp
  next
    case pending then show ?thesis by (auto simp: generate_pending started_def)
  next
    case (provider_throws msg) then show ?thesis
      by (auto simp: generate_provider_throws started_def)
  next
    case (no_image response msg) then show ?thesis
      by (auto simp: generate_no_image started_def)
  next
    case (upload_error response buf msg) then show ?thesis
      by (auto simp: generate_upload_error started_def)
  next
    case (save_rejected response buf url msg) then show ?thesis
      by (auto simp: generate_save_rejected started_def)
  next
    case (success response buf url) then show ?thesis
      by (auto simp: generate_success started_def)
  qed
qed

theorem prompt_is_ordered_concatenation_witness:
  "truthy (session_userId sleep_tips) \<and> create_fault all_well = None \<and>
   trace (generateThumbnail all_well empty_store sleep_tips) ! 1 =
     ProviderCalled
       ''Create a minimalist thumbnail, clean layout, simple shapes, limited color palette, plenty of negative space, modern flat design, clear focal point thumbnail for \"10 sleep tips\". Use a soft pastel colors, low saturation, gentle tones, calm and friendly aesthetic color scheme. The thumbnail should be 1:1, visually stunning, bold, professional, and optimized for maximum click-through rate.''
       (JStr ''1:1'')"
proof -
  let ?out = "generateThumbnail all_well empty_store sleep_tips"
  have mem: "ProviderCalled (requestedPrompt sleep_tips) (JStr ''1:1'') \<in> set (trace ?out)"
    by (simp add: sleep_tips_well started_def) (simp add: sleep_tips_def defaultTo_def)
  have nth: "trace ?out ! 1 = ProviderCalled (requestedPrompt sleep_tips) (JStr ''1:1'')"
    by (simp add: sleep_tips_well started_def) (simp add: sleep_tips_def defaultTo_def)
  from prompt_is_ordered_concatenation [of all_well empty_store sleep_tips] mem
  have "requestedPrompt sleep_tips =
      (''Create a '' @ toString (getProperty stylePrompts (body_style sleep_tips))
             @ '' thumbnail for \"'' @ toString (body_title sleep_tips) @ ''\". '')
        @ (if truthy (body_color_scheme sleep_tips)
           then ''Use a ''
                  @ toString (getProperty colorSchemeDescriptions (body_color_scheme sleep_tips))
                  @ '' color scheme. ''
           else [])
        @ (if truthy (body_prompt sleep_tips)
           then ''Additional details: '' @ toString (body_prompt sleep_tips) @ ''. ''
           else [])
        @ (''The thumbnail should be ''
             @ toString (defaultTo (JStr ''16:9'') (body_aspect_ratio sleep_tips))
             @ '', visually stunning, bold, professional, and optimized for maximum click-through rate.'')"
    by blast
  then have "requestedPrompt sleep_tips = ''Create a minimalist thumbnail, clean layout, simple shapes, limited color palette, plenty of negative space, modern flat design, clear focal point thumbnail for \"10 sleep tips\". Use a soft pastel colors, low saturation, gentle tones, calm and friendly aesthetic color scheme. The thumbnail should be 1:1, visually stunning, bold, professional, and optimized for maximum click-through rate.''"
    by (simp add: sleep_tips_def getProperty_def stylePrompts_def colorSchemeDescriptions_def
          defaultTo_def)
  with nth show ?thesis by (simp add: sleep_tips_def all_well_def)
qed

subsection \<open>The shape of a trace\<close>

lemma generate_trace_shape:
  "trace (generateThumbnail env db req) = [] \<or>
   (\<exists>rest. trace (generateThumbnail env db req) = started db req @ rest \<and>
           (\<forall>e \<in> set rest. (\<exists>buf. e = UploadCalled buf) \<or>
                           (\<exists>url. e = Saved (next_id db) (completed (requested req) url))))"
  by (cases rule: generate_paths [where req = req and env = env])
     (auto simp: generate_unauthorized generate_create_rejected generate_pending
        generate_provider_throws generate_no_image generate_upload_error
        generate_save_rejected generate_success)

lemma generate_reaches_provider:
  assumes "truthy (session_userId req)" "create_fault env = None"
  shows "\<exists>rest. trace (generateThumbnail env db req) = started db req @ rest"
  using assms
  by (cases rule: generate_paths [where req = req and env = env])
     (simp_all add: generate_pending
        generate_provider_throws generate_no_image generate_upload_error
        generate_save_rejected generate_success)

lemma requested_fresh: "isGenerating (requested req) \<and> image_url (requested req) = None"
  by (simp add: requested_def newThumbnail_def)

lemma closing_16_9:
  "''The thumbnail should be '' @ toString (JStr ''16:9'')
     @ '', visually stunning, bold, professional, and optimized for maximum click-through rate.''
   = ''The thumbnail should be 16:9, visually stunning, bold, professional, and optimized for maximum click-through rate.''"
  by simp

subsection \<open>The record is created before the provider is called\<close>

text \<open>
  C1.  For every generate request carrying an authenticated session, the handler creates
  the record, in-progress flag set and no image reference, strictly before it calls the
  provider: whenever the provider is called, the creation is the effect right before the
  call; the call is made whenever the creation succeeded; and when the provider never
  returns, no response is sent and the collection holds the record under its identifier,
  still in progress and without an image reference.
\<close>

theorem record_created_before_provider_call:
  assumes "truthy (session_userId req)"
  shows "(\<forall>p r. ProviderCalled p r \<in> set (trace (generateThumbnail env db req)) \<longrightarrow>
            (\<exists>doc rest. trace (generateThumbnail env db req)
                           = Created (next_id db) doc # ProviderCalled p r # rest
                        \<and> isGenerating doc \<and> image_url doc = None))
       \<and> (create_fault env = None \<longrightarrow>
            (\<exists>p r. ProviderCalled p r \<in> set (trace (generateThumbnail env db req))))
       \<and> (create_fault env = None \<and> provider env = NeverReturns \<longrightarrow>
            reply (generateThumbnail env db req) = None \<and>
            (\<exists>doc. docs (final (generateThumbnail env db req)) (next_id db) = Some doc
                   \<and> isGenerating doc \<and> image_url doc = None))"
proof (intro conjI allI impI)
  fix p r
  assume mem: "ProviderCalled p r \<in> set (trace (generateThumbnail env db req))"
  from generate_trace_shape [of env db req] mem
  obtain rest where tr: "trace (generateThumbnail env db req) = started db req @ rest"
    and rest: "\<forall>e \<in> set rest. (\<exists>buf. e = UploadCalled buf) \<or>
                  (\<exists>url. e = Saved (next_id db) (completed (requested req) url))"
    by auto
  from mem tr rest
  have "ProviderCalled p r \<in> set (started db req)" by auto
  then have "started db req = [Created (next_id db) (requested req), ProviderCalled p r]"
    by (simp add: started_def)
  with tr requested_fresh [of req]
  show "\<exists>doc rest. trace (generateThumbnail env db req)
                           = Created (next_id db) doc # ProviderCalled p r # rest
                        \<and> isGenerating doc \<and> image_url doc = None"
    by simp
next
  assume "create_fault env = None"
  with assms generate_reaches_provider [of req env db]
  obtain rest where "trace (generateThumbnail env db req) = started db req @ rest"
    by auto
  then have "ProviderCalled (requestedPrompt req)
               (defaultTo (JStr ''16:9'') (body_aspect_ratio req))
             \<in> set (trace (generateThumbnail env db req))"
    by (simp add: started_def)
  then show "\<exists>p r. ProviderCalled p r \<in> set (trace (generateThumbnail env db req))"
    by blast
next
  assume a: "create_fault env = None \<and> provider env = NeverReturns"
  with assms show "reply (generateThumbnail env db req) = None"
    by (simp add: generate_pending)
next
  assume a: "create_fault env = None \<and> provider env = NeverReturns"
  with assms requested_fresh [of req]
  show "\<exists>doc. docs (final (generateThumbnail env db req)) (next_id db) = Some doc
                   \<and> isGenerating doc \<and> image_url doc = None"
    by (simp add: generate_pending inserted_def)
qed

theorem record_created_before_provider_call_witness:
  "truthy (session_userId sleep_tips) \<and>
   create_fault (all_well\<lparr>provider := NeverReturns\<rparr>) = None \<and>
   provider (all_well\<lparr>provider := NeverReturns\<rparr>) = NeverReturns \<and>
   reply (generateThumbnail (all_well\<lparr>provider := NeverReturns\<rparr>) empty_store sleep_tips) = None \<and>
   (\<exists>doc. docs (final (generateThumbnail (all_well\<lparr>provider := NeverReturns\<rparr>)
                         empty_store sleep_tips)) 0 = Some doc
          \<and> isGenerating doc \<and> image_url doc = None) \<and>
   (\<exists>p r. ProviderCalled p r
            \<in> set (trace (generateThumbnail (all_well\<lparr>provider := NeverReturns\<rparr>)
                         empty_store sleep_tips)))"
proof -
  have h: "truthy (session_userId sleep_tips)" by (simp add: sleep_tips_def)
  have c: "create_fault (all_well\<lparr>provider := NeverReturns\<rparr>) = None"
    by (simp add: all_well_def)
  have p: "provider (all_well\<lparr>provider := NeverReturns\<rparr>) = NeverReturns" by simp
  have n: "next_id empty_store = 0" by (simp add: empty_store_def)
  from record_created_before_provider_call
         [OF h, of "all_well\<lparr>provider := NeverReturns\<rparr>" empty_store] h c p n
  show ?thesis by simp
qed

subsection \<open>The default aspect ratio\<close>

text \<open>
  C10.  For every generate request whose body omits the aspect ratio, the handler uses
  \<open>16:9\<close>: in the record it creates, in the aspect ratio it gives the provider and in
  the closing clause of the prompt; the omission makes no request fail, since an
  authenticated request whose record was created persists that record with \<open>16:9\<close>
  and reaches the provider.
\<close>

theorem default_aspect_ratio:
  assumes "body_aspect_ratio req = JUndefined"
  shows "(\<forall>i doc. Created i doc \<in> set (trace (generateThumbnail env db req)) \<longrightarrow>
            aspect_ratio doc = JStr ''16:9'')
       \<and> (\<forall>p r. ProviderCalled p r \<in> set (trace (generateThumbnail env db req)) \<longrightarrow>
            r = JStr ''16:9'' \<and>
            (\<exists>clauses. p = clauses @ ''The thumbnail should be 16:9, visually stunning, bold, professional, and optimized for maximum click-through rate.''))
       \<and> (truthy (session_userId req) \<and> create_fault env = None \<longrightarrow>
            (\<exists>doc. docs (final (generateThumbnail env db req)) (next_id db) = Some doc
                   \<and> aspect_ratio doc = JStr ''16:9'') \<and>
            (\<exists>p. ProviderCalled p (JStr ''16:9'')
                   \<in> set (trace (generateThumbnail env db req))))"
proof (intro conjI allI impI)
  fix i doc
  assume mem: "Created i doc \<in> set (trace (generateThumbnail env db req))"
  from generate_trace_shape [of env db req] mem
  obtain rest where tr: "trace (generateThumbnail env db req) = started db req @ rest"
    and rest: "\<forall>e \<in> set rest. (\<exists>buf. e = UploadCalled buf) \<or>
                  (\<exists>url. e = Saved (next_id db) (completed (requested req) url))"
    by auto
  from mem tr rest have "Created i doc \<in> set (started db req)" by auto
  then have "doc = requested req" by (simp add: started_def)
  with assms show "aspect_ratio doc = JStr ''16:9''"
    by (simp add: requested_def newThumbnail_def defaultTo_def)
next
  fix p r
  assume mem: "ProviderCalled p r \<in> set (trace (generateThumbnail env db req))"
  from provider_call_args [OF mem] assms
  show "r = JStr ''16:9''" by (simp add: defaultTo_def)
next
  fix p r
  assume mem: "ProviderCalled p r \<in> set (trace (generateThumbnail env db req))"
  from provider_call_args [OF mem] assms
  have "p = buildPrompt (body_title req) (body_prompt req) (body_style req) (JStr ''16:9'')
              (body_color_scheme req)"
    by (simp add: defaultTo_def)
  then show "\<exists>clauses. p = clauses @ ''The thumbnail should be 16:9, visually stunning, bold, professional, and optimized for maximum click-through rate.''"
    by (simp only: buildPrompt_clauses closing_16_9) (metis append_assoc)
next
  assume a: "truthy (session_userId req) \<and> create_fault env = None"
  show "\<exists>doc. docs (final (generateThumbnail env db req)) (next_id db) = Some doc
                   \<and> aspect_ratio doc = JStr ''16:9''"
    using a assms
    by (cases rule: generate_paths [where req = req and env = env])
       (simp_all add: generate_pending
        generate_provider_throws generate_no_image generate_upload_error
        generate_save_rejected generate_success inserted_def completed_def requested_def
        newThumbnail_def defaultTo_def)
next
  assume a: "truthy (session_userId req) \<and> create_fault env = None"
  with generate_reaches_provider [of req env db]
  obtain rest where "trace (generateThumbnail env db req) = started db req @ rest"
    by auto
  with assms have "ProviderCalled (requestedPrompt req) (JStr ''16:9'')
             \<in> set (trace (generateThumbnail env db req))"
    by (simp add: started_def defaultTo_def)
  then show "\<exists>p. ProviderCalled p (JStr ''16:9'')
               \<in> set (trace (generateThumbnail env db req))"
    by blast
qed

theorem default_aspect_ratio_witness:
  "body_aspect_ratio (sleep_tips\<lparr>body_aspect_ratio := JUndefined\<rparr>) = JUndefined \<and>
   truthy (session_userId (sleep_tips\<lparr>body_aspect_ratio := JUndefined\<rparr>)) \<and>
   create_fault all_well = None \<and>
   (\<exists>doc. docs (final (generateThumbnail all_well empty_store
                         (sleep_tips\<lparr>body_aspect_ratio := JUndefined\<rparr>))) 0 = Some doc
          \<and> aspect_ratio doc = JStr ''16:9'') \<and>
   (\<exists>p. ProviderCalled p (JStr ''16:9'')
          \<in> set (trace (generateThumbnail all_well empty_store
                         (sleep_tips\<lparr>body_aspect_ratio := JUndefined\<rparr>))))"
proof -
  have h: "body_aspect_ratio (sleep_tips\<lparr>body_aspect_ratio := JUndefined\<rparr>) = JUndefined"
    by simp
  have a: "truthy (session_userId (sleep_tips\<lparr>body_aspect_ratio := JUndefined\<rparr>))"
    by (simp add: sleep_tips_def)
  have c: "create_fault all_well = None" by (simp add: all_well_def)
  have n: "next_id empty_store = 0" by (simp add: empty_store_def)
  from default_aspect_ratio [OF h, of all_well empty_store] h a c n
  show ?thesis by simp
qed

subsection \<open>deleteThumbnail removes only the caller's own record\<close>

lemmas delete_defs = deleteThumbnail_def Let_def Thumbnail_findOneAndDelete_def

text \<open>
  C3.  For every delete request and every record identifier, the delete handler removes a
  record only when the record's owner field equals the caller's identity: a record of
  another owner is in the collection afterwards as it was before, the only document that
  can change is the one named by the request, which is then removed and was the caller's,
  and the response carries no record data: it is a status with a message, the same
  whatever the collection holds.
\<close>

theorem delete_only_by_owner:
  "(\<forall>j doc. docs db j = Some doc \<and> userId doc \<noteq> caller_userId req \<longrightarrow>
       docs (final (deleteThumbnail fault db req)) j = Some doc)
   \<and> (\<forall>j. docs (final (deleteThumbnail fault db req)) j \<noteq> docs db j \<longrightarrow>
         j = params_id req \<and> docs (final (deleteThumbnail fault db req)) j = None \<and>
         (\<exists>doc. docs db j = Some doc \<and> userId doc = caller_userId req))
   \<and> (\<forall>db'. reply (deleteThumbnail fault db' req) = reply (deleteThumbnail fault db req))
   \<and> (\<exists>code msg. reply (deleteThumbnail fault db req) = Some (Response code (Message msg)))"
  by (auto simp: delete_defs split: option.splits if_splits)

theorem delete_only_by_owner_witness:
  "docs two_owners 1 = Some (requested (sleep_tips\<lparr>session_userId := JStr ''user-2''\<rparr>)) \<and>
   userId (requested (sleep_tips\<lparr>session_userId := JStr ''user-2''\<rparr>)) \<noteq> JStr ''user-1'' \<and>
   docs (final (deleteThumbnail None two_owners
                  \<lparr>params_id = 1, caller_userId = JStr ''user-1''\<rparr>)) 1
     = Some (requested (sleep_tips\<lparr>session_userId := JStr ''user-2''\<rparr>)) \<and>
   docs (final (deleteThumbnail None two_owners
                  \<lparr>params_id = 0, caller_userId = JStr ''user-1''\<rparr>)) 0 = None \<and>
   docs two_owners 0 \<noteq> None"
proof -
  let ?other = "requested (sleep_tips\<lparr>session_userId := JStr ''user-2''\<rparr>)"
  have d: "docs two_owners 1 = Some ?other" by (simp add: two_owners_def)
  have o: "userId ?other \<noteq> JStr ''user-1''" by (simp add: requested_def newThumbnail_def)
  have "docs (final (deleteThumbnail None two_owners
                  \<lparr>params_id = 1, caller_userId = JStr ''user-1''\<rparr>)) 1 = Some ?other"
    using delete_only_by_owner
            [of two_owners "\<lparr>params_id = 1, caller_userId = JStr ''user-1''\<rparr>" None] d o
    by simp
  moreover have "docs (final (deleteThumbnail None two_owners
                  \<lparr>params_id = 0, caller_userId = JStr ''user-1''\<rparr>)) 0 = None"
    by (simp add: delete_defs two_owners_def requested_def newThumbnail_def sleep_tips_def)
  moreover have "docs two_owners 0 \<noteq> None" by (simp add: two_owners_def)
  ultimately show ?thesis using d o by simp
qed

subsection \<open>Deleting what is not there\<close>

text \<open>
  C6, as stated, fails: an authenticated delete request whose store call rejects (the
  identifier cannot be cast, the connection is lost) is answered with status 500 and the
  error's message, not with the success message.
\<close>

theorem delete_store_failure_counterexample:
  "truthy (caller_userId \<lparr>params_id = 7, caller_userId = JStr ''user-1''\<rparr>) \<and>
   reply (deleteThumbnail (Some ''Cast to ObjectId failed'') empty_store
            \<lparr>params_id = 7, caller_userId = JStr ''user-1''\<rparr>)
     = Some (Response 500 (Message ''Cast to ObjectId failed''))"
  by (simp add: delete_defs)

text \<open>
  C6, amended.  For every authenticated delete request whose store call completes,
  including one whose identifier matches no record or a record already deleted, the
  handler answers 200 with the generic success message, and its response never depends on
  what the collection holds, so there is no distinct not-found answer; when the store call
  rejects, the handler answers 500 with the error's message and leaves the collection as
  it was.
\<close>

theorem delete_missing_is_success:
  assumes "truthy (caller_userId req)"
  shows "(fault = None \<longrightarrow>
            reply (deleteThumbnail fault db req)
              = Some (Response 200 (Message ''Thumbnail deleted successfully'')))
       \<and> (\<forall>msg. fault = Some msg \<longrightarrow>
            reply (deleteThumbnail fault db req) = Some (Response 500 (Message msg)) \<and>
            final (deleteThumbnail fault db req) = db)
       \<and> (\<forall>db'. reply (deleteThumbnail fault db' req) = reply (deleteThumbnail fault db req))"
  using assms by (auto simp: delete_defs split: option.splits)

theorem delete_missing_is_success_witness:
  "truthy (caller_userId \<lparr>params_id = 7, caller_userId = JStr ''user-1''\<rparr>) \<and>
   docs empty_store 7 = None \<and>
   reply (deleteThumbnail None empty_store \<lparr>params_id = 7, caller_userId = JStr ''user-1''\<rparr>)
     = Some (Response 200 (Message ''Thumbnail deleted successfully'')) \<and>
   reply (deleteThumbnail None
            (final (deleteThumbnail None two_owners
                      \<lparr>params_id = 0, caller_userId = JStr ''user-1''\<rparr>))
            \<lparr>params_id = 0, caller_userId = JStr ''user-1''\<rparr>)
     = Some (Response 200 (Message ''Thumbnail deleted successfully''))"
proof -
  have h: "truthy (caller_userId \<lparr>params_id = 7, caller_userId = JStr ''user-1''\<rparr>)" by simp
  have h0: "truthy (caller_userId \<lparr>params_id = 0, caller_userId = JStr ''user-1''\<rparr>)" by simp
  have e: "docs empty_store 7 = None" by (simp add: empty_store_def)
  from delete_missing_is_success [OF h, of None empty_store]
       delete_missing_is_success [OF h0, of None "final (deleteThumbnail None two_owners
                      \<lparr>params_id = 0, caller_userId = JStr ''user-1''\<rparr>)"] h e
  show ?thesis by simp
qed

subsection \<open>A failed generation\<close>

text \<open>
  C5, as stated, fails: when the error that ends the generation has an empty message, the
  response does not carry that message but the fixed text of the handler's \<^verbatim>\<open>catch\<close>
  (\<^verbatim>\<open>error.message || "Failed to generate thumbnail"\<close>).
\<close>

theorem empty_error_message_counterexample:
  "truthy (session_userId sleep_tips) \<and>
   create_fault (all_well\<lparr>provider := ProviderThrows []\<rparr>) = None \<and>
   provider (all_well\<lparr>provider := ProviderThrows []\<rparr>) = ProviderThrows [] \<and>
   reply (generateThumbnail (all_well\<lparr>provider := ProviderThrows []\<rparr>) empty_store sleep_tips)
     = Some (Response 500 (Failure ''Failed to generate thumbnail'')) \<and>
   reply (generateThumbnail (all_well\<lparr>provider := ProviderThrows []\<rparr>) empty_store sleep_tips)
     \<noteq> Some (Response 500 (Failure []))"
proof -
  have a: "truthy (session_userId sleep_tips)" by (simp add: sleep_tips_def)
  have c: "create_fault (all_well\<lparr>provider := ProviderThrows []\<rparr>) = None"
    by (simp add: all_well_def)
  have p: "provider (all_well\<lparr>provider := ProviderThrows []\<rparr>) = ProviderThrows []" by simp
  from generate_provider_throws [OF a c p, of empty_store] a c p
  show ?thesis by (simp add: generateFailed_def)
qed

text \<open>
  C5, amended.  For every generate invocation in which the provider call, the image
  extraction or the media upload fails after the record was created, the handler answers
  500 with the error's message when that message is not empty and with the fixed text
  \<open>Failed to generate thumbnail\<close> when it is empty, and the created record is left as it
  was created: it is in the collection, still in progress and without an image reference,
  and nothing was saved.
\<close>

theorem failure_leaves_record_in_progress:
  assumes "truthy (session_userId req)"
    and "create_fault env = None"
    and "provider env = ProviderThrows msg
         \<or> (\<exists>response. provider env = ProviderReturns response \<and>
                         extractImage response = Inl msg)
         \<or> (\<exists>response buf. provider env = ProviderReturns response \<and>
                         extractImage response = Inr buf \<and>
                         upload env = UploadError msg)"
  shows "(msg \<noteq> [] \<longrightarrow>
            reply (generateThumbnail env db req) = Some (Response 500 (Failure msg)))
       \<and> (msg = [] \<longrightarrow>
            reply (generateThumbnail env db req)
              = Some (Response 500 (Failure ''Failed to generate thumbnail'')))
       \<and> (\<exists>doc. docs (final (generateThumbnail env db req)) (next_id db) = Some doc
                 \<and> Created (next_id db) doc \<in> set (trace (generateThumbnail env db req))
                 \<and> isGenerating doc \<and> image_url doc = None)
       \<and> (\<forall>i doc. Saved i doc \<notin> set (trace (generateThumbnail env db req)))"
proof -
  from assms(3)
  consider (a) "provider env = ProviderThrows msg"
    | (b) response where "provider env = ProviderReturns response"
        "extractImage response = Inl msg"
    | (c) response buf where "provider env = ProviderReturns response"
        "extractImage response = Inr buf" "upload env = UploadError msg"
    by blast
  then show ?thesis
  proof cases
    case a
    with assms(1,2) show ?thesis
      by (simp add: generate_provider_throws generateFailed_def inserted_def started_def
            requested_fresh)
  next
    case b
    with assms(1,2) show ?thesis
      by (simp add: generate_no_image generateFailed_def inserted_def started_def
            requested_fresh)
  next
    case c
    with assms(1,2) show ?thesis
      by (simp add: generate_upload_error generateFailed_def inserted_def started_def
            requested_fresh)
  qed
qed

theorem failure_leaves_record_in_progress_witness:
  "truthy (session_userId sleep_tips) \<and>
   create_fault (all_well\<lparr>provider := ProviderReturns (response_with [text_part])\<rparr>) = None \<and>
   extractImage (response_with [text_part]) = Inl ''No image returned from AI'' \<and>
   reply (generateThumbnail (all_well\<lparr>provider := ProviderReturns (response_with [text_part])\<rparr>)
            empty_store sleep_tips)
     = Some (Response 500 (Failure ''No image returned from AI'')) \<and>
   (\<exists>doc. docs (final (generateThumbnail
                          (all_well\<lparr>provider := ProviderReturns (response_with [text_part])\<rparr>)
                          empty_store sleep_tips)) 0 = Some doc
          \<and> isGenerating doc \<and> image_url doc = None)"
proof -
  let ?env = "all_well\<lparr>provider := ProviderReturns (response_with [text_part])\<rparr>"
  have h: "truthy (session_userId sleep_tips)" by (simp add: sleep_tips_def)
  have c: "create_fault ?env = None" by (simp add: all_well_def)
  have x: "extractImage (response_with [text_part]) = Inl ''No image returned from AI''"
    by (simp add: extractImage_def responseParts_def response_with_def text_part_def
          inlineImage_def)
  have f: "provider ?env = ProviderThrows ''No image returned from AI''
         \<or> (\<exists>response. provider ?env = ProviderReturns response \<and>
                         extractImage response = Inl ''No image returned from AI'')
         \<or> (\<exists>response buf. provider ?env = ProviderReturns response \<and>
                         extractImage response = Inr buf \<and>
                         upload ?env = UploadError ''No image returned from AI'')"
    using x by simp
  have n: "next_id empty_store = 0" by (simp add: empty_store_def)
  from failure_leaves_record_in_progress [OF h c f, of empty_store] h c x n
  show ?thesis by auto
qed

subsection \<open>Which image is uploaded\<close>

lemma scanParts_last:
  "scanParts acc ps =
    (if inlinePayloads ps = [] then acc
     else Some (Buffer_from_base64 (last (inlinePayloads ps))))"
proof (induction ps arbitrary: acc)
  case Nil
  then show ?case by (simp add: inlinePayloads_def map_filter_simps)
next
  case (Cons p ps)
  show ?case
  proof (cases "inlineImage p")
    case None
    then show ?thesis using Cons.IH [of acc]
      by (simp add: inlinePayloads_def map_filter_simps)
  next
    case (Some d)
    then show ?thesis using Cons.IH [of "Some (Buffer_from_base64 d)"]
      by (simp add: inlinePayloads_def map_filter_simps)
  qed
qed

lemma extractImage_parts:
  "responseParts response = Some ps \<Longrightarrow>
   extractImage response =
     (if inlinePayloads ps = [] then Inl ''No image returned from AI''
      else Inr (Buffer_from_base64 (last (inlinePayloads ps))))"
  by (simp add: extractImage_def scanParts_last)

lemma started_has_no_upload: "UploadCalled b \<notin> set (started db req)"
  by (simp add: started_def)

lemma two_images_payloads:
  "inlinePayloads [image_part ''QQ=='', image_part ''Qg==''] = [''QQ=='', ''Qg=='']"
  by (simp add: inlinePayloads_def map_filter_simps image_part_def inlineImage_def)

lemma decode_A: "Buffer_from_base64 ''QQ=='' = [65]"
  by (simp add: Buffer_from_base64_def unbase64_def)

lemma decode_B: "Buffer_from_base64 ''Qg=='' = [66]"
  by (simp add: Buffer_from_base64_def unbase64_def)

lemma two_images_parts:
  "responseParts (response_with ps) = Some ps"
  by (simp add: responseParts_def response_with_def)

text \<open>
  C4, as stated, fails: when the provider returns two inline images, the bytes handed to
  the media host are those of the second image, not of the first.  The loop over the
  parts assigns \<^verbatim>\<open>imageBuffer\<close> at every part that carries data and does not leave
  at the first one.
\<close>

theorem first_inline_image_counterexample:
  "inlinePayloads [image_part ''QQ=='', image_part ''Qg==''] = [''QQ=='', ''Qg==''] \<and>
   provider two_images
     = ProviderReturns (response_with [image_part ''QQ=='', image_part ''Qg=='']) \<and>
   Buffer_from_base64 ''QQ=='' = [65] \<and>
   Buffer_from_base64 ''Qg=='' = [66] \<and>
   UploadCalled [65] \<notin> set (trace (generateThumbnail two_images empty_store sleep_tips)) \<and>
   UploadCalled [66] \<in> set (trace (generateThumbnail two_images empty_store sleep_tips))"
proof -
  have x: "extractImage (response_with [image_part ''QQ=='', image_part ''Qg=='']) = Inr [66]"
    by (simp add: extractImage_parts [OF two_images_parts] two_images_payloads decode_B)
  have "trace (generateThumbnail two_images empty_store sleep_tips) =
          started empty_store sleep_tips @
            [UploadCalled [66],
             Saved (next_id empty_store) (completed (requested sleep_tips)
               ''https://res.cloudinary.com/demo/image/upload/v1/thumbnails/a.png'')]"
    using generate_success [of sleep_tips two_images
        "response_with [image_part ''QQ=='', image_part ''Qg=='']" "[66]"
        "''https://res.cloudinary.com/demo/image/upload/v1/thumbnails/a.png''" empty_store] x
    by (simp add: two_images_def all_well_def sleep_tips_def)
  then show ?thesis
    by (simp add: two_images_payloads decode_A decode_B two_images_def started_def)
qed

text \<open>
  C4, amended.  For every provider response whose candidate content contains one or more
  inline image payloads, the generate handler uploads the bytes of the last such payload
  (and nothing else); for every response with a candidate content parts list but no
  inline image payload, the handler fails with the error \<open>No image returned from AI\<close>
  (status 500) and uploads nothing.
\<close>

theorem last_inline_image_is_uploaded:
  assumes "truthy (session_userId req)"
    and "create_fault env = None"
    and "provider env = ProviderReturns response"
    and "responseParts response = Some ps"
  shows "(inlinePayloads ps \<noteq> [] \<longrightarrow>
            (\<forall>buf. UploadCalled buf \<in> set (trace (generateThumbnail env db req)) \<longleftrightarrow>
                   buf = Buffer_from_base64 (last (inlinePayloads ps))))
       \<and> (inlinePayloads ps = [] \<longrightarrow>
            reply (generateThumbnail env db req)
              = Some (Response 500 (Failure ''No image returned from AI'')) \<and>
            (\<forall>buf. UploadCalled buf \<notin> set (trace (generateThumbnail env db req))))"
proof (cases "inlinePayloads ps = []")
  case True
  with assms(4) have "extractImage response = Inl ''No image returned from AI''"
    by (simp add: extractImage_parts)
  with assms(1-3) True show ?thesis
    by (simp add: generate_no_image generateFailed_def started_def)
next
  case False
  with assms(4)
  have ex: "extractImage response = Inr (Buffer_from_base64 (last (inlinePayloads ps)))"
    by (simp add: extractImage_parts)
  show ?thesis
  proof (cases "upload env")
    case (UploadError msg)
    with assms(1-3) ex False show ?thesis
      by (auto simp: generate_upload_error started_has_no_upload)
  next
    case up: (UploadResult url)
    show ?thesis
    proof (cases "save_fault env")
      case None
      with assms(1-3) ex up False show ?thesis
        by (auto simp: generate_success started_has_no_upload)
    next
      case (Some msg)
      with assms(1-3) ex up False show ?thesis
        by (auto simp: generate_save_rejected started_has_no_upload)
    qed
  qed
qed

theorem last_inline_image_is_uploaded_witness:
  "truthy (session_userId sleep_tips) \<and> create_fault two_images = None \<and>
   provider two_images = ProviderReturns (response_with [image_part ''QQ=='', image_part ''Qg=='']) \<and>
   inlinePayloads [image_part ''QQ=='', image_part ''Qg==''] \<noteq> [] \<and>
   UploadCalled [66] \<in> set (trace (generateThumbnail two_images empty_store sleep_tips))"
proof -
  have h: "truthy (session_userId sleep_tips)" by (simp add: sleep_tips_def)
  have c: "create_fault two_images = None" by (simp add: two_images_def all_well_def)
  have p: "provider two_images
             = ProviderReturns (response_with [image_part ''QQ=='', image_part ''Qg==''])"
    by (simp add: two_images_def)
  from last_inline_image_is_uploaded [OF h c p two_images_parts, of empty_store]
       h c p two_images_payloads decode_B
  show ?thesis by simp
qed

subsection \<open>Tags outside the tables\<close>

lemma unlisted_key:
  "map_of table (toString v) = None \<Longrightarrow> map_of ObjectPrototype (toString v) = None \<Longrightarrow>
   toString (getProperty table v) = ''undefined''"
  by (simp add: getProperty_def)

lemma generate_status_paths:
  "reply (generateThumbnail env db req) =
    (if \<not> truthy (session_userId req) then Some (Response 401 (Message ''Unauthorized''))
     else case create_fault env of
       Some msg \<Rightarrow> Some (generateFailed msg)
     | None \<Rightarrow>
        (case provider env of
           NeverReturns \<Rightarrow> None
         | ProviderThrows msg \<Rightarrow> Some (generateFailed msg)
         | ProviderReturns response \<Rightarrow>
            (case extractImage response of
               Inl msg \<Rightarrow> Some (generateFailed msg)
             | Inr buf \<Rightarrow>
                (case upload env of
                   UploadError msg \<Rightarrow> Some (generateFailed msg)
                 | UploadResult url \<Rightarrow>
                    (case save_fault env of
                       Some msg \<Rightarrow> Some (generateFailed msg)
                     | None \<Rightarrow>
                        Some (Response 200
                               (Success (next_id db) (completed (requested req) url))))))))"
  by (cases rule: generate_paths [where req = req and env = env])
     (simp_all add: generate_unauthorized generate_create_rejected generate_pending
        generate_provider_throws generate_no_image generate_upload_error
        generate_save_rejected generate_success)

lemma generate_well:
  assumes "truthy (session_userId req)"
  shows "trace (generateThumbnail all_well empty_store req) ! 1
           = ProviderCalled (requestedPrompt req)
               (defaultTo (JStr ''16:9'') (body_aspect_ratio req))
       \<and> ProviderCalled (requestedPrompt req) (defaultTo (JStr ''16:9'') (body_aspect_ratio req))
           \<in> set (trace (generateThumbnail all_well empty_store req))
       \<and> map_option status (reply (generateThumbnail all_well empty_store req)) = Some 200"
  using generate_success [OF assms, of all_well "response_with [image_part ''QQ=='']" "[65]"
      "''https://res.cloudinary.com/demo/image/upload/v1/thumbnails/a.png''" empty_store]
  by (simp add: all_well_image all_well_def started_def)

text \<open>
  C8, as stated, fails: \<open>toString\<close> is not a key of the style table, yet the lookup
  \<^verbatim>\<open>stylePrompts[style]\<close> finds the method of that name which the table inherits from
  \<^verbatim>\<open>Object.prototype\<close>, and the prompt holds the text of a built-in function where the
  style clause would be; the text \<open>undefined\<close> occurs nowhere in it.
\<close>

theorem inherited_property_counterexample:
  "map_of stylePrompts (toString (body_style inherited_tag)) = None \<and>
   ProviderCalled
     ''Create a function toString() { [native code] } thumbnail for \"10 sleep tips\". Use a soft pastel colors, low saturation, gentle tones, calm and friendly aesthetic color scheme. The thumbnail should be 1:1, visually stunning, bold, professional, and optimized for maximum click-through rate.''
     (JStr ''1:1'')
     \<in> set (trace (generateThumbnail all_well empty_store inherited_tag)) \<and>
   occurrences ''undefined''
     ''Create a function toString() { [native code] } thumbnail for \"10 sleep tips\". Use a soft pastel colors, low saturation, gentle tones, calm and friendly aesthetic color scheme. The thumbnail should be 1:1, visually stunning, bold, professional, and optimized for maximum click-through rate.''
     = 0"
proof -
  have a: "truthy (session_userId inherited_tag)"
    by (simp add: inherited_tag_def sleep_tips_def)
  have r: "defaultTo (JStr ''16:9'') (body_aspect_ratio inherited_tag) = JStr ''1:1''"
    by (simp add: inherited_tag_def sleep_tips_def defaultTo_def)
  have p: "requestedPrompt inherited_tag =
     ''Create a function toString() { [native code] } thumbnail for \"10 sleep tips\". Use a soft pastel colors, low saturation, gentle tones, calm and friendly aesthetic color scheme. The thumbnail should be 1:1, visually stunning, bold, professional, and optimized for maximum click-through rate.''"
    by (simp add: requestedPrompt_def inherited_tag_def sleep_tips_def buildPrompt_def
          getProperty_def stylePrompts_def colorSchemeDescriptions_def ObjectPrototype_def
          defaultTo_def)
  have s: "map_of stylePrompts (toString (body_style inherited_tag)) = None"
    by (simp add: inherited_tag_def stylePrompts_def)
  have o: "occurrences ''undefined''
     ''Create a function toString() { [native code] } thumbnail for \"10 sleep tips\". Use a soft pastel colors, low saturation, gentle tones, calm and friendly aesthetic color scheme. The thumbnail should be 1:1, visually stunning, bold, professional, and optimized for maximum click-through rate.''
     = 0"
    by simp
  from generate_well [OF a] r p s o show ?thesis by simp
qed

lemma inherited_key:
  "map_of table (toString v) = None \<Longrightarrow> map_of ObjectPrototype (toString v) = Some w \<Longrightarrow>
   getProperty table v = w"
  by (simp add: getProperty_def)

lemma inherited_names:
  "(map_of ObjectPrototype k \<noteq> None) =
     (k \<in> set [''constructor'', ''__defineGetter__'', ''__defineSetter__'', ''hasOwnProperty'',
                ''__lookupGetter__'', ''__lookupSetter__'', ''isPrototypeOf'',
                ''propertyIsEnumerable'', ''toString'', ''valueOf'', ''__proto__'',
                ''toLocaleString''])"
  by (simp add: ObjectPrototype_def)

lemma inherited_text:
  assumes "map_of ObjectPrototype k = Some w"
  shows "toString w =
           (if k = ''__proto__'' then ''[object Object]''
            else ''function '' @ (if k = ''constructor'' then ''Object'' else k)
                   @ ''() { [native code] }'')"
  using assms by (auto simp: ObjectPrototype_def split: if_splits)

text \<open>
  C8, amended.  For every generate request whose style value is neither a key of the
  style table nor the name of a property inherited from \<^verbatim>\<open>Object.prototype\<close> (and
  likewise for a supplied colour-scheme value and the colour table), the request is not
  rejected: the prompt holds the text \<open>undefined\<close> where the table's entry would be.  For
  a value that is not a key of its table but names an inherited property (one of the
  twelve names listed), the prompt holds that property's text in that place:
  \<open>[object Object]\<close> for \<^verbatim>\<open>__proto__\<close>, and \<open>function NAME() { [native code] }\<close> for the
  others, \<open>NAME\<close> being \<open>Object\<close> for \<^verbatim>\<open>constructor\<close> and the name itself otherwise.
  In every case the status of the response is the one any other style and colour scheme
  would get, and an authenticated request whose record was created reaches the provider.
\<close>

theorem unlisted_tag_gives_undefined:
  "(map_of stylePrompts (toString (body_style req)) = None \<and>
    map_of ObjectPrototype (toString (body_style req)) = None \<longrightarrow>
      (\<forall>p r. ProviderCalled p r \<in> set (trace (generateThumbnail env db req)) \<longrightarrow>
         (\<exists>rest. p = ''Create a undefined thumbnail for \"'' @ toString (body_title req)
                       @ ''\". '' @ rest)))
   \<and> (truthy (body_color_scheme req) \<and>
      map_of colorSchemeDescriptions (toString (body_color_scheme req)) = None \<and>
      map_of ObjectPrototype (toString (body_color_scheme req)) = None \<longrightarrow>
      (\<forall>p r. ProviderCalled p r \<in> set (trace (generateThumbnail env db req)) \<longrightarrow>
         (\<exists>rest. p = ''Create a '' @ toString (getProperty stylePrompts (body_style req))
                       @ '' thumbnail for \"'' @ toString (body_title req) @ ''\". ''
                       @ ''Use a undefined color scheme. '' @ rest)))
   \<and> (\<forall>w. map_of stylePrompts (toString (body_style req)) = None \<and>
          map_of ObjectPrototype (toString (body_style req)) = Some w \<longrightarrow>
      (\<forall>p r. ProviderCalled p r \<in> set (trace (generateThumbnail env db req)) \<longrightarrow>
         (\<exists>rest. p = ''Create a '' @ toString w @ '' thumbnail for \"''
                       @ toString (body_title req) @ ''\". '' @ rest)))
   \<and> (\<forall>w. truthy (body_color_scheme req) \<and>
          map_of colorSchemeDescriptions (toString (body_color_scheme req)) = None \<and>
          map_of ObjectPrototype (toString (body_color_scheme req)) = Some w \<longrightarrow>
      (\<forall>p r. ProviderCalled p r \<in> set (trace (generateThumbnail env db req)) \<longrightarrow>
         (\<exists>rest. p = ''Create a '' @ toString (getProperty stylePrompts (body_style req))
                       @ '' thumbnail for \"'' @ toString (body_title req) @ ''\". ''
                       @ ''Use a '' @ toString w @ '' color scheme. '' @ rest)))
   \<and> (\<forall>k. (map_of ObjectPrototype k \<noteq> None) =
            (k \<in> set [''constructor'', ''__defineGetter__'', ''__defineSetter__'',
                       ''hasOwnProperty'', ''__lookupGetter__'', ''__lookupSetter__'',
                       ''isPrototypeOf'', ''propertyIsEnumerable'', ''toString'', ''valueOf'',
                       ''__proto__'', ''toLocaleString'']))
   \<and> (\<forall>k w. map_of ObjectPrototype k = Some w \<longrightarrow>
          toString w =
            (if k = ''__proto__'' then ''[object Object]''
             else ''function '' @ (if k = ''constructor'' then ''Object'' else k)
                    @ ''() { [native code] }''))
   \<and> (\<forall>s c. map_option status
                (reply (generateThumbnail env db (req\<lparr>body_style := s, body_color_scheme := c\<rparr>)))
            = map_option status (reply (generateThumbnail env db req)))
   \<and> (truthy (session_userId req) \<and> create_fault env = None \<longrightarrow>
        (\<exists>p r. ProviderCalled p r \<in> set (trace (generateThumbnail env db req))))"
proof (intro conjI allI impI)
  fix p r
  assume u: "map_of stylePrompts (toString (body_style req)) = None \<and>
             map_of ObjectPrototype (toString (body_style req)) = None"
    and mem: "ProviderCalled p r \<in> set (trace (generateThumbnail env db req))"
  from provider_call_args [OF mem]
  have "p = buildPrompt (body_title req) (body_prompt req) (body_style req) r
              (body_color_scheme req)" by simp
  with u show "\<exists>rest. p = ''Create a undefined thumbnail for \"'' @ toString (body_title req)
                       @ ''\". '' @ rest"
    by (simp add: buildPrompt_clauses unlisted_key)
next
  fix p r
  assume u: "truthy (body_color_scheme req) \<and>
      map_of colorSchemeDescriptions (toString (body_color_scheme req)) = None \<and>
      map_of ObjectPrototype (toString (body_color_scheme req)) = None"
    and mem: "ProviderCalled p r \<in> set (trace (generateThumbnail env db req))"
  from provider_call_args [OF mem]
  have "p = buildPrompt (body_title req) (body_prompt req) (body_style req) r
              (body_color_scheme req)" by simp
  with u show "\<exists>rest. p = ''Create a '' @ toString (getProperty stylePrompts (body_style req))
                       @ '' thumbnail for \"'' @ toString (body_title req) @ ''\". ''
                       @ ''Use a undefined color scheme. '' @ rest"
    by (simp add: buildPrompt_clauses unlisted_key)
next
  fix w p r
  assume u: "map_of stylePrompts (toString (body_style req)) = None \<and>
             map_of ObjectPrototype (toString (body_style req)) = Some w"
    and mem: "ProviderCalled p r \<in> set (trace (generateThumbnail env db req))"
  from provider_call_args [OF mem]
  have "p = buildPrompt (body_title req) (body_prompt req) (body_style req) r
              (body_color_scheme req)" by simp
  with u show "\<exists>rest. p = ''Create a '' @ toString w @ '' thumbnail for \"''
                       @ toString (body_title req) @ ''\". '' @ rest"
    by (simp add: buildPrompt_clauses inherited_key)
next
  fix w p r
  assume u: "truthy (body_color_scheme req) \<and>
      map_of colorSchemeDescriptions (toString (body_color_scheme req)) = None \<and>
      map_of ObjectPrototype (toString (body_color_scheme req)) = Some w"
    and mem: "ProviderCalled p r \<in> set (trace (generateThumbnail env db req))"
  from provider_call_args [OF mem]
  have "p = buildPrompt (body_title req) (body_prompt req) (body_style req) r
              (body_color_scheme req)" by simp
  with u show "\<exists>rest. p = ''Create a '' @ toString (getProperty stylePrompts (body_style req))
                       @ '' thumbnail for \"'' @ toString (body_title req) @ ''\". ''
                       @ ''Use a '' @ toString w @ '' color scheme. '' @ rest"
    by (simp add: buildPrompt_clauses inherited_key)
next
  fix k
  show "(map_of ObjectPrototype k \<noteq> None) =
            (k \<in> set [''constructor'', ''__defineGetter__'', ''__defineSetter__'',
                       ''hasOwnProperty'', ''__lookupGetter__'', ''__lookupSetter__'',
                       ''isPrototypeOf'', ''propertyIsEnumerable'', ''toString'', ''valueOf'',
                       ''__proto__'', ''toLocaleString''])"
    by (rule inherited_names)
next
  fix k w
  assume "map_of ObjectPrototype k = Some w"
  then show "toString w =
            (if k = ''__proto__'' then ''[object Object]''
             else ''function '' @ (if k = ''constructor'' then ''Object'' else k)
                    @ ''() { [native code] }'')"
    by (rule inherited_text)
next
  fix s c
  show "map_option status
          (reply (generateThumbnail env db (req\<lparr>body_style := s, body_color_scheme := c\<rparr>)))
        = map_option status (reply (generateThumbnail env db req))"
    by (simp add: generate_status_paths generateFailed_def
          split: option.splits provider_result.splits sum.splits upload_result.splits)
next
  assume "truthy (session_userId req) \<and> create_fault env = None"
  with generate_reaches_provider [of req env db]
  obtain rest where "trace (generateThumbnail env db req) = started db req @ rest"
    by auto
  then have "ProviderCalled (requestedPrompt req)
               (defaultTo (JStr ''16:9'') (body_aspect_ratio req))
             \<in> set (trace (generateThumbnail env db req))"
    by (simp add: started_def)
  then show "\<exists>p r. ProviderCalled p r \<in> set (trace (generateThumbnail env db req))"
    by blast
qed

theorem unlisted_tag_gives_undefined_witness:
  "map_of stylePrompts (toString (body_style unlisted_tags)) = None \<and>
   map_of ObjectPrototype (toString (body_style unlisted_tags)) = None \<and>
   truthy (body_color_scheme unlisted_tags) \<and>
   map_of colorSchemeDescriptions (toString (body_color_scheme unlisted_tags)) = None \<and>
   map_of ObjectPrototype (toString (body_color_scheme unlisted_tags)) = None \<and>
   ProviderCalled (requestedPrompt unlisted_tags) (JStr ''1:1'')
     \<in> set (trace (generateThumbnail all_well empty_store unlisted_tags)) \<and>
   (\<exists>rest. requestedPrompt unlisted_tags
             = ''Create a undefined thumbnail for \"10 sleep tips\". Use a undefined color scheme. ''
               @ rest) \<and>
   map_option status (reply (generateThumbnail all_well empty_store unlisted_tags)) = Some 200 \<and>
   truthy (body_color_scheme inherited_colour) \<and>
   map_of colorSchemeDescriptions (toString (body_color_scheme inherited_colour)) = None \<and>
   map_of ObjectPrototype (toString (body_color_scheme inherited_colour))
     = Some (JFunction ''Object'') \<and>
   ProviderCalled (requestedPrompt inherited_colour) (JStr ''1:1'')
     \<in> set (trace (generateThumbnail all_well empty_store inherited_colour)) \<and>
   (\<exists>rest. requestedPrompt inherited_colour
             = ''Create a minimalist thumbnail, clean layout, simple shapes, limited color palette, plenty of negative space, modern flat design, clear focal point thumbnail for \"10 sleep tips\". Use a function Object() { [native code] } color scheme. ''
               @ rest) \<and>
   map_option status (reply (generateThumbnail all_well empty_store inherited_colour)) = Some 200"
proof -
  have s1: "map_of stylePrompts (toString (body_style unlisted_tags)) = None"
    by (simp add: unlisted_tags_def stylePrompts_def)
  have s2: "map_of ObjectPrototype (toString (body_style unlisted_tags)) = None"
    by (simp add: unlisted_tags_def ObjectPrototype_def)
  have c0: "truthy (body_color_scheme unlisted_tags)" by (simp add: unlisted_tags_def)
  have c1: "map_of colorSchemeDescriptions (toString (body_color_scheme unlisted_tags)) = None"
    by (simp add: unlisted_tags_def colorSchemeDescriptions_def)
  have c2: "map_of ObjectPrototype (toString (body_color_scheme unlisted_tags)) = None"
    by (simp add: unlisted_tags_def ObjectPrototype_def)
  have a: "truthy (session_userId unlisted_tags)"
    by (simp add: unlisted_tags_def sleep_tips_def)
  have r: "defaultTo (JStr ''16:9'') (body_aspect_ratio unlisted_tags) = JStr ''1:1''"
    by (simp add: unlisted_tags_def sleep_tips_def defaultTo_def)
  have t: "toString (body_title unlisted_tags) = ''10 sleep tips''"
    by (simp add: unlisted_tags_def sleep_tips_def)
  from generate_well [OF a] r
  have mem: "ProviderCalled (requestedPrompt unlisted_tags) (JStr ''1:1'')
               \<in> set (trace (generateThumbnail all_well empty_store unlisted_tags))"
    and ok: "map_option status (reply (generateThumbnail all_well empty_store unlisted_tags))
               = Some 200"
    by simp_all
  from unlisted_tag_gives_undefined [of unlisted_tags all_well empty_store] s1 s2 c0 c1 c2 mem
  have "\<exists>rest. requestedPrompt unlisted_tags
          = ''Create a '' @ toString (getProperty stylePrompts (body_style unlisted_tags))
              @ '' thumbnail for \"'' @ toString (body_title unlisted_tags) @ ''\". ''
              @ ''Use a undefined color scheme. '' @ rest"
    by blast
  then have u: "\<exists>rest. requestedPrompt unlisted_tags
          = ''Create a undefined thumbnail for \"10 sleep tips\". Use a undefined color scheme. ''
              @ rest"
    by (simp add: unlisted_key [OF s1 s2] t)
  have i0: "truthy (body_color_scheme inherited_colour)" by (simp add: inherited_colour_def)
  have i1: "map_of colorSchemeDescriptions (toString (body_color_scheme inherited_colour)) = None"
    by (simp add: inherited_colour_def colorSchemeDescriptions_def)
  have i2: "map_of ObjectPrototype (toString (body_color_scheme inherited_colour))
              = Some (JFunction ''Object'')"
    by (simp add: inherited_colour_def ObjectPrototype_def)
  have ia: "truthy (session_userId inherited_colour)"
    by (simp add: inherited_colour_def sleep_tips_def)
  have ir: "defaultTo (JStr ''16:9'') (body_aspect_ratio inherited_colour) = JStr ''1:1''"
    by (simp add: inherited_colour_def sleep_tips_def defaultTo_def)
  have it: "toString (body_title inherited_colour) = ''10 sleep tips''"
    by (simp add: inherited_colour_def sleep_tips_def)
  have ist: "toString (getProperty stylePrompts (body_style inherited_colour))
               = ''minimalist thumbnail, clean layout, simple shapes, limited color palette, plenty of negative space, modern flat design, clear focal point''"
    by (simp add: inherited_colour_def sleep_tips_def getProperty_def stylePrompts_def)
  from generate_well [OF ia] ir
  have imem: "ProviderCalled (requestedPrompt inherited_colour) (JStr ''1:1'')
               \<in> set (trace (generateThumbnail all_well empty_store inherited_colour))"
    and iok: "map_option status (reply (generateThumbnail all_well empty_store inherited_colour))
               = Some 200"
    by simp_all
  from unlisted_tag_gives_undefined [of inherited_colour all_well empty_store] i0 i1 i2 imem
  have "\<exists>rest. requestedPrompt inherited_colour
          = ''Create a '' @ toString (getProperty stylePrompts (body_style inherited_colour))
              @ '' thumbnail for \"'' @ toString (body_title inherited_colour) @ ''\". ''
              @ ''Use a '' @ toString (JFunction ''Object'') @ '' color scheme. '' @ rest"
    by blast
  then have i: "\<exists>rest. requestedPrompt inherited_colour
          = ''Create a minimalist thumbnail, clean layout, simple shapes, limited color palette, plenty of negative space, modern flat design, clear focal point thumbnail for \"10 sleep tips\". Use a function Object() { [native code] } color scheme. ''
              @ rest"
    by (simp add: ist it)
  from s1 s2 c0 c1 c2 mem u ok i0 i1 i2 imem i iok show ?thesis by blast
qed

subsection \<open>The download URL\<close>

lemma replace_first_occurrence:
  assumes "pat \<noteq> []" and "0 < occurrences pat s"
  shows "\<exists>pre post. s = pre @ pat @ post \<and> replace s pat rep = pre @ rep @ post \<and>
           (\<forall>k < length pre. \<not> prefix pat (drop k s))"
  using assms(2)
proof (induction s)
  case Nil
  with assms(1) show ?case by simp
next
  case (Cons c cs)
  show ?case
  proof (cases "prefix pat (c # cs)")
    case True
    then obtain post where p: "c # cs = pat @ post" by (auto simp: prefix_def)
    then have d: "drop (length pat) (c # cs) = post" by simp
    from True d have "replace (c # cs) pat rep = [] @ rep @ post" by simp
    moreover from p have "c # cs = [] @ pat @ post" by simp
    moreover have "\<forall>k < length ([] :: string). \<not> prefix pat (drop k (c # cs))" by simp
    ultimately show ?thesis by blast
  next
    case False
    with Cons.prems have "0 < occurrences pat cs" by simp
    from Cons.IH [OF this] obtain pre post where
      s: "cs = pre @ pat @ post" and r: "replace cs pat rep = pre @ rep @ post"
      and f: "\<forall>k < length pre. \<not> prefix pat (drop k cs)" by blast
    have "\<forall>k < length (c # pre). \<not> prefix pat (drop k (c # cs))"
    proof (intro allI impI)
      fix k assume "k < length (c # pre)"
      then show "\<not> prefix pat (drop k (c # cs))"
        using False f by (cases k) auto
    qed
    moreover from s have "c # cs = (c # pre) @ pat @ post" by simp
    moreover from r False have "replace (c # cs) pat rep = (c # pre) @ rep @ post" by simp
    ultimately show ?thesis by blast
  qed
qed

lemma occurrences_skip:
  "(\<forall>k < length xs. \<not> prefix pat (drop k (xs @ ys))) \<Longrightarrow>
   occurrences pat (xs @ ys) = occurrences pat ys"
proof (induction xs)
  case Nil
  then show ?case by simp
next
  case (Cons x xs)
  from Cons.prems have h: "\<not> prefix pat (x # xs @ ys)" by (auto dest: spec [of _ 0])
  from Cons.prems have "\<forall>k < length xs. \<not> prefix pat (drop k (xs @ ys))"
    by (auto dest: spec [of _ "Suc k" for k])
  with Cons.IH h show ?case by simp
qed

lemma prefix_within:
  assumes "length pat \<le> length xs"
  shows "prefix pat (xs @ ys) \<longleftrightarrow> prefix pat xs"
proof
  assume "prefix pat (xs @ ys)"
  moreover have "prefix xs (xs @ ys)" by simp
  ultimately show "prefix pat xs" using assms by (rule prefix_length_prefix)
next
  assume "prefix pat xs"
  then show "prefix pat (xs @ ys)" by simp
qed


lemma count_at_attachment:
  "occurrences ''/upload/fl_attachment/'' (''/upload/fl_attachment/'' @ post) =
     1 + (if prefix ''upload/fl_attachment/'' post then 1 else 0)
       + occurrences ''/upload/fl_attachment/'' post"
  by simp

lemma no_attachment_before:
  assumes "\<forall>k < length pre. \<not> prefix ''/upload/'' (drop k (pre @ ''/upload/'' @ post))"
  shows "\<forall>k < length pre.
           \<not> prefix ''/upload/fl_attachment/'' (drop k (pre @ ''/upload/fl_attachment/'' @ post))"
proof (intro allI impI notI)
  fix k
  assume k: "k < length pre"
    and p: "prefix ''/upload/fl_attachment/'' (drop k (pre @ ''/upload/fl_attachment/'' @ post))"
  have "prefix ''/upload/'' ''/upload/fl_attachment/''" by simp
  from this p have "prefix ''/upload/'' (drop k (pre @ ''/upload/fl_attachment/'' @ post))"
    by (rule prefix_order.trans)
  with k have "prefix ''/upload/'' ((drop k pre @ ''/upload/'') @ ''fl_attachment/'' @ post)"
    by simp
  then have "prefix ''/upload/'' (drop k pre @ ''/upload/'')"
    by (subst (asm) prefix_within) simp_all
  then have "prefix ''/upload/'' ((drop k pre @ ''/upload/'') @ post)"
    by (rule prefix_prefix)
  with k have "prefix ''/upload/'' (drop k (pre @ ''/upload/'' @ post))" by simp
  with assms k show False by blast
qed

lemma occurrences_suffix: "occurrences pat ys \<le> occurrences pat (xs @ ys)"
  by (induction xs) auto

text \<open>
  C9.  For every stored media URL containing the segment \<open>/upload/\<close>, both download
  handlers produce the URL with \<open>fl_attachment/\<close> inserted right after the first
  \<open>/upload/\<close> and every other character unchanged.  The result contains
  \<open>/upload/fl_attachment/\<close> once at that place and once more for every occurrence of
  \<open>/upload/fl_attachment/\<close> that the stored URL has from the closing slash of its first
  \<open>/upload/\<close> on; so it contains it exactly once for every stored URL, which is the
  media host's \<^verbatim>\<open>secure_url\<close> and carries no \<open>fl_attachment\<close> flag yet, however often
  \<open>/upload/\<close> occurs in it.
\<close>

theorem download_url_inserts_attachment_flag:
  assumes "0 < occurrences ''/upload/'' url"
  shows "\<exists>pre post.
           url = pre @ ''/upload/'' @ post
         \<and> (\<forall>k < length pre. \<not> prefix ''/upload/'' (drop k url))
         \<and> map_option href (handleDownload url thumb_id)
             = Some (pre @ ''/upload/fl_attachment/'' @ post)
         \<and> map_option href (onDownload (Some (Some url, id_opt)))
             = Some (pre @ ''/upload/fl_attachment/'' @ post)
         \<and> occurrences ''/upload/fl_attachment/'' (pre @ ''/upload/fl_attachment/'' @ post)
             = 1 + occurrences ''/upload/fl_attachment/'' (''/'' @ post)
         \<and> (occurrences ''/upload/fl_attachment/'' url = 0 \<longrightarrow>
              occurrences ''/upload/fl_attachment/'' (pre @ ''/upload/fl_attachment/'' @ post)
                = 1)"
proof -
  have ne: "''/upload/'' \<noteq> []" by simp
  from replace_first_occurrence [OF ne assms, of "''/upload/fl_attachment/''"]
  obtain pre post where
    u: "url = pre @ ''/upload/'' @ post"
    and r: "replace url ''/upload/'' ''/upload/fl_attachment/''
              = pre @ ''/upload/fl_attachment/'' @ post"
    and f: "\<forall>k < length pre. \<not> prefix ''/upload/'' (drop k url)"
    by blast
  from u have nonempty: "url \<noteq> []" by auto
  have h: "map_option href (handleDownload url thumb_id)
             = Some (pre @ ''/upload/fl_attachment/'' @ post)"
    using nonempty r by (simp add: handleDownload_def Let_def)
  have o: "map_option href (onDownload (Some (Some url, id_opt)))
             = Some (pre @ ''/upload/fl_attachment/'' @ post)"
    using nonempty r by (simp add: onDownload_def Let_def)
  from f u have f': "\<forall>k < length pre. \<not> prefix ''/upload/'' (drop k (pre @ ''/upload/'' @ post))"
    by simp
  have "occurrences ''/upload/fl_attachment/'' (pre @ ''/upload/fl_attachment/'' @ post)
           = 1 + (if prefix ''upload/fl_attachment/'' post then 1 else 0)
               + occurrences ''/upload/fl_attachment/'' post"
    using occurrences_skip [OF no_attachment_before [OF f']] count_at_attachment [of post]
    by simp
  then have cnt: "occurrences ''/upload/fl_attachment/'' (pre @ ''/upload/fl_attachment/'' @ post)
           = 1 + occurrences ''/upload/fl_attachment/'' (''/'' @ post)"
    by simp
  have once: "occurrences ''/upload/fl_attachment/'' (pre @ ''/upload/fl_attachment/'' @ post) = 1"
    if none: "occurrences ''/upload/fl_attachment/'' url = 0"
  proof -
    from u have "url = (pre @ ''/upload'') @ (''/'' @ post)" by simp
    with occurrences_suffix [of "''/upload/fl_attachment/''" "''/'' @ post" "pre @ ''/upload''"]
    have "occurrences ''/upload/fl_attachment/'' (''/'' @ post)
            \<le> occurrences ''/upload/fl_attachment/'' url"
      by simp
    with none have "occurrences ''/upload/fl_attachment/'' (''/'' @ post) = 0" by simp
    with cnt show ?thesis by simp
  qed
  from once
  have once': "occurrences ''/upload/fl_attachment/'' url = 0 \<longrightarrow>
               occurrences ''/upload/fl_attachment/'' (pre @ ''/upload/fl_attachment/'' @ post)
                 = 1"
    by (rule impI)
  from u f h o cnt once'
  have "url = pre @ ''/upload/'' @ post
         \<and> (\<forall>k < length pre. \<not> prefix ''/upload/'' (drop k url))
         \<and> map_option href (handleDownload url thumb_id)
             = Some (pre @ ''/upload/fl_attachment/'' @ post)
         \<and> map_option href (onDownload (Some (Some url, id_opt)))
             = Some (pre @ ''/upload/fl_attachment/'' @ post)
         \<and> occurrences ''/upload/fl_attachment/'' (pre @ ''/upload/fl_attachment/'' @ post)
             = 1 + occurrences ''/upload/fl_attachment/'' (''/'' @ post)
         \<and> (occurrences ''/upload/fl_attachment/'' url = 0 \<longrightarrow>
              occurrences ''/upload/fl_attachment/'' (pre @ ''/upload/fl_attachment/'' @ post)
                = 1)"
    by (intro conjI)
  then show ?thesis
    by - (rule exI [of _ pre], rule exI [of _ post])
qed

theorem download_url_inserts_attachment_flag_witness:
  "0 < occurrences ''/upload/'' media_url \<and>
   occurrences ''/upload/fl_attachment/'' media_url = 0 \<and>
   map_option href (handleDownload media_url ''42'')
     = Some ''https://res.cloudinary.com/demo/image/upload/fl_attachment/v1/thumbnails/a.png'' \<and>
   occurrences ''/upload/fl_attachment/''
     ''https://res.cloudinary.com/demo/image/upload/fl_attachment/v1/thumbnails/a.png'' = 1 \<and>
   occurrences ''/upload/'' double_upload_url = 2 \<and>
   occurrences ''/upload/fl_attachment/'' double_upload_url = 0 \<and>
   map_option href (handleDownload double_upload_url ''42'')
     = Some ''https://media.example/upload/fl_attachment/upload/a.png'' \<and>
   occurrences ''/upload/fl_attachment/''
     ''https://media.example/upload/fl_attachment/upload/a.png'' = 1"
proof -
  have pos: "0 < occurrences ''/upload/'' media_url" by (simp add: media_url_def)
  have none: "occurrences ''/upload/fl_attachment/'' media_url = 0" by (simp add: media_url_def)
  have h: "map_option href (handleDownload media_url ''42'')
     = Some ''https://res.cloudinary.com/demo/image/upload/fl_attachment/v1/thumbnails/a.png''"
    by (simp add: handleDownload_def media_url_def)
  from download_url_inserts_attachment_flag [OF pos, of "''42''"] none
  obtain pre post where
    "map_option href (handleDownload media_url ''42'')
       = Some (pre @ ''/upload/fl_attachment/'' @ post)"
    and "occurrences ''/upload/fl_attachment/'' (pre @ ''/upload/fl_attachment/'' @ post) = 1"
    by blast
  with h have one: "occurrences ''/upload/fl_attachment/''
     ''https://res.cloudinary.com/demo/image/upload/fl_attachment/v1/thumbnails/a.png'' = 1"
    by simp
  have two: "occurrences ''/upload/'' double_upload_url = 2" by (simp add: double_upload_url_def)
  then have pos2: "0 < occurrences ''/upload/'' double_upload_url" by simp
  have none2: "occurrences ''/upload/fl_attachment/'' double_upload_url = 0"
    by (simp add: double_upload_url_def)
  have h2: "map_option href (handleDownload double_upload_url ''42'')
     = Some ''https://media.example/upload/fl_attachment/upload/a.png''"
    by (simp add: handleDownload_def double_upload_url_def)
  from download_url_inserts_attachment_flag [OF pos2, of "''42''"] none2
  obtain pre2 post2 where
    "map_option href (handleDownload double_upload_url ''42'')
       = Some (pre2 @ ''/upload/fl_attachment/'' @ post2)"
    and "occurrences ''/upload/fl_attachment/'' (pre2 @ ''/upload/fl_attachment/'' @ post2) = 1"
    by blast
  with h2 have one2: "occurrences ''/upload/fl_attachment/''
     ''https://media.example/upload/fl_attachment/upload/a.png'' = 1"
    by simp
  from pos none h one two none2 h2 one2 show ?thesis by simp
qed

subsection \<open>The life of one record\<close>

lemma replay_Nil [simp]: "replay [] m = m"
  by (simp add: replay_def)

lemma replay_Cons [simp]: "replay (e # es) m = replay es (effect e m)"
  by (simp add: replay_def)

lemma replay_append [simp]: "replay (xs @ ys) m = replay ys (replay xs m)"
  by (simp add: replay_def)

lemma steps_ok_append:
  "steps_ok i m (xs @ ys) = (steps_ok i m xs \<and> steps_ok i (replay xs m) ys)"
  by (induction xs arbitrary: m) auto

lemma replay_take_Suc:
  "k < length evs \<Longrightarrow> replay (take (Suc k) evs) m = effect (evs ! k) (replay (take k evs) m)"
  by (simp add: take_Suc_conv_app_nth)

lemma steps_ok_nth:
  "steps_ok i m evs \<Longrightarrow> k < length evs \<Longrightarrow> step_ok i (replay (take k evs) m) (evs ! k)"
proof (induction evs arbitrary: m k)
  case Nil
  then show ?case by simp
next
  case (Cons e es)
  then show ?case by (cases k) auto
qed

lemma fresh_ids_next: "fresh_ids db \<Longrightarrow> docs db (next_id db) = None"
  by (auto simp: fresh_ids_def)

lemma fresh_ids_inserted: "fresh_ids db \<Longrightarrow> fresh_ids (inserted db doc)"
  by (auto simp: fresh_ids_def inserted_def intro: less_SucI)

lemma steps_ok_started:
  assumes "fresh_ids db"
  shows "steps_ok i (docs db) (started db req)"
  using fresh_ids_next [OF assms]
  by (simp add: started_def step_ok_def requested_def newThumbnail_def split: option.splits)

lemma replay_started: "replay (started db req) (docs db) = docs (inserted db (requested req))"
  by (simp add: started_def inserted_def)

lemma count_started: "filter (writesImage i) (started db req) = []"
  by (simp add: started_def requested_def newThumbnail_def)

lemma generate_ok:
  assumes "fresh_ids db"
  shows "invocation_ok i db (generateThumbnail env db req)"
proof (cases rule: generate_paths [where req = req and env = env])
  case unauthorized
  with assms show ?thesis by (simp add: generate_unauthorized invocation_ok_def)
next
  case (create_rejected msg)
  with assms show ?thesis by (simp add: generate_create_rejected invocation_ok_def)
next
  case pending
  with assms show ?thesis
    by (simp add: generate_pending invocation_ok_def steps_ok_started replay_started
          count_started fresh_ids_inserted) (simp add: inserted_def)
next
  case (provider_throws msg)
  with assms show ?thesis
    by (simp add: generate_provider_throws invocation_ok_def steps_ok_started replay_started
          count_started fresh_ids_inserted) (simp add: inserted_def)
next
  case (no_image response msg)
  with assms show ?thesis
    by (simp add: generate_no_image invocation_ok_def steps_ok_started replay_started
          count_started fresh_ids_inserted) (simp add: inserted_def)
next
  case (upload_error response buf msg)
  with assms show ?thesis
    by (simp add: generate_upload_error invocation_ok_def steps_ok_append steps_ok_started
          replay_started count_started fresh_ids_inserted step_ok_def split: option.splits)
       (simp add: inserted_def)
next
  case (save_rejected response buf url msg)
  with assms show ?thesis
    by (simp add: generate_save_rejected invocation_ok_def steps_ok_append steps_ok_started
          replay_started count_started fresh_ids_inserted step_ok_def split: option.splits)
       (simp add: inserted_def)
next
  case (success response buf url)
  have f: "fresh_ids ((inserted db (requested req))
             \<lparr>docs := (docs (inserted db (requested req)))
                        (next_id db \<mapsto> completed (requested req) url)\<rparr>)"
    using assms by (auto simp: fresh_ids_def inserted_def intro: less_SucI)
  have s: "steps_ok i (docs (inserted db (requested req)))
             [UploadCalled buf, Saved (next_id db) (completed (requested req) url)]"
    by (simp add: step_ok_def inserted_def completed_def requested_def newThumbnail_def
          split: option.splits)
  from success assms f s show ?thesis
    by (simp add: generate_success invocation_ok_def steps_ok_append steps_ok_started
          replay_started count_started)
       (simp add: inserted_def completed_def)
qed

lemma delete_ok:
  assumes "fresh_ids db"
  shows "invocation_ok i db (deleteThumbnail fault db req)"
  using assms
  by (auto simp: invocation_ok_def delete_defs step_ok_def fresh_ids_def
           split: option.splits if_splits)

lemma invoke_ok: "fresh_ids db \<Longrightarrow> invocation_ok i db (invoke c db)"
  by (cases c) (simp_all add: generate_ok delete_ok)


lemma run_Cons:
  "run db (c # cs) =
     (fst (run (final (invoke c db)) cs), trace (invoke c db) @ snd (run (final (invoke c db)) cs))"
  by (simp add: Let_def case_prod_beta)

lemma run_ok:
  assumes "fresh_ids db"
  shows "steps_ok i (docs db) (snd (run db calls)) \<and>
         docs (fst (run db calls)) = replay (snd (run db calls)) (docs db) \<and>
         length (filter (writesImage i) (snd (run db calls))) \<le> (if i < next_id db then 0 else 1)"
  using assms
proof (induction calls arbitrary: db)
  case Nil
  then show ?case by simp
next
  case (Cons c cs)
  let ?out = "invoke c db"
  from invoke_ok [OF Cons.prems, of i c]
  have st: "steps_ok i (docs db) (trace ?out)"
    and re: "docs (final ?out) = replay (trace ?out) (docs db)"
    and fr: "fresh_ids (final ?out)"
    and mono: "next_id db \<le> next_id (final ?out)"
    and le1: "length (filter (writesImage i) (trace ?out)) \<le> 1"
    and wr: "filter (writesImage i) (trace ?out) \<noteq> [] \<longrightarrow>
               i = next_id db \<and> i < next_id (final ?out)"
    by (simp_all add: invocation_ok_def)
  from Cons.IH [OF fr]
  have st': "steps_ok i (docs (final ?out)) (snd (run (final ?out) cs))"
    and re': "docs (fst (run (final ?out) cs))
                = replay (snd (run (final ?out) cs)) (docs (final ?out))"
    and cn': "length (filter (writesImage i) (snd (run (final ?out) cs)))
                \<le> (if i < next_id (final ?out) then 0 else 1)"
    by simp_all
  have "steps_ok i (docs db) (snd (run db (c # cs)))"
    using st st' re by (simp add: run_Cons steps_ok_append del: run.simps)
  moreover have "docs (fst (run db (c # cs))) = replay (snd (run db (c # cs))) (docs db)"
    using re re' by (simp add: run_Cons del: run.simps)
  moreover have "length (filter (writesImage i) (snd (run db (c # cs))))
                   \<le> (if i < next_id db then 0 else 1)"
  proof (cases "filter (writesImage i) (trace ?out) = []")
    case True
    with cn' mono show ?thesis by (auto simp add: run_Cons simp del: run.simps split: if_splits)
  next
    case False
    with wr have "i = next_id db" and "i < next_id (final ?out)" by simp_all
    with cn' le1 show ?thesis by (simp add: run_Cons del: run.simps)
  qed
  ultimately show ?case by blast
qed

lemma generate_then_delete_events:
  "snd (run empty_store generate_then_delete) =
     [Created 0 (requested sleep_tips),
      ProviderCalled (requestedPrompt sleep_tips) (JStr ''1:1''),
      UploadCalled [65],
      Saved 0 (completed (requested sleep_tips)
        ''https://res.cloudinary.com/demo/image/upload/v1/thumbnails/a.png''),
      Deleted 0]"
  by (simp add: generate_then_delete_def sleep_tips_well started_def delete_defs inserted_def
        completed_def)
     (simp add: empty_store_def requested_def newThumbnail_def sleep_tips_def defaultTo_def)

text \<open>
  C2.  Over every sequence of handler invocations (each running to its response before
  the next starts, from a collection whose identifiers were all issued by the generator),
  and for every record identifier \<open>i\<close>: the effects replayed on the initial documents
  give the final documents; at most one effect writes an image reference into record
  \<open>i\<close>; at such an effect the record was in progress without an image before it and is
  completed with an image after it; and no effect takes a completed record back to in
  progress.
\<close>

theorem image_written_once:
  assumes "fresh_ids db"
  shows "docs (fst (run db calls)) = replay (snd (run db calls)) (docs db)
       \<and> length (filter (writesImage i) (snd (run db calls))) \<le> 1
       \<and> (\<forall>k < length (snd (run db calls)).
             writesImage i (snd (run db calls) ! k) \<longrightarrow>
             (\<exists>before after.
                replay (take k (snd (run db calls))) (docs db) i = Some before \<and>
                isGenerating before \<and> image_url before = None \<and>
                replay (take (Suc k) (snd (run db calls))) (docs db) i = Some after \<and>
                \<not> isGenerating after \<and> image_url after \<noteq> None))
       \<and> (\<forall>k < length (snd (run db calls)). \<forall>before after.
             replay (take k (snd (run db calls))) (docs db) i = Some before \<and>
             \<not> isGenerating before \<and>
             replay (take (Suc k) (snd (run db calls))) (docs db) i = Some after \<longrightarrow>
             \<not> isGenerating after)"
proof (intro conjI allI impI)
  show "docs (fst (run db calls)) = replay (snd (run db calls)) (docs db)"
    using run_ok [OF assms] by blast
next
  have "length (filter (writesImage i) (snd (run db calls)))
          \<le> (if i < next_id db then 0 else 1)"
    using run_ok [OF assms] by blast
  then show "length (filter (writesImage i) (snd (run db calls))) \<le> 1"
    by (simp split: if_splits)
next
  fix k
  assume k: "k < length (snd (run db calls))"
    and w: "writesImage i (snd (run db calls) ! k)"
  from run_ok [OF assms, of i calls] have "steps_ok i (docs db) (snd (run db calls))"
    by blast
  from steps_ok_nth [OF this k] w replay_take_Suc [OF k, of "docs db"]
  show "\<exists>before after.
          replay (take k (snd (run db calls))) (docs db) i = Some before \<and>
          isGenerating before \<and> image_url before = None \<and>
          replay (take (Suc k) (snd (run db calls))) (docs db) i = Some after \<and>
          \<not> isGenerating after \<and> image_url after \<noteq> None"
    by (auto simp: step_ok_def split: option.splits)
next
  fix k before after
  assume k: "k < length (snd (run db calls))"
    and b: "replay (take k (snd (run db calls))) (docs db) i = Some before \<and>
            \<not> isGenerating before \<and>
            replay (take (Suc k) (snd (run db calls))) (docs db) i = Some after"
  from run_ok [OF assms, of i calls] have "steps_ok i (docs db) (snd (run db calls))"
    by blast
  from steps_ok_nth [OF this k] b replay_take_Suc [OF k, of "docs db"]
  show "\<not> isGenerating after"
    by (auto simp: step_ok_def split: option.splits)
qed

theorem image_written_once_witness:
  "fresh_ids empty_store \<and>
   3 < length (snd (run empty_store generate_then_delete)) \<and>
   writesImage 0 (snd (run empty_store generate_then_delete) ! 3) \<and>
   (\<exists>before after.
      replay (take 3 (snd (run empty_store generate_then_delete))) (docs empty_store) 0
        = Some before \<and>
      isGenerating before \<and> image_url before = None \<and>
      replay (take (Suc 3) (snd (run empty_store generate_then_delete))) (docs empty_store) 0
        = Some after \<and>
      \<not> isGenerating after \<and> image_url after \<noteq> None) \<and>
   length (filter (writesImage 0) (snd (run empty_store generate_then_delete))) \<le> 1"
proof -
  have f: "fresh_ids empty_store" by (simp add: fresh_ids_def empty_store_def)
  have k: "3 < length (snd (run empty_store generate_then_delete))"
    by (simp add: generate_then_delete_events)
  have w: "writesImage 0 (snd (run empty_store generate_then_delete) ! 3)"
    by (simp add: generate_then_delete_events completed_def)
  from image_written_once [OF f, of generate_then_delete 0] f k w
  show ?thesis by blast
qed

end
